theory Spec2Isabelle
  imports Complex_Main "HOL-Library.AList" "HOL-Library.Monad_Syntax"
begin

section \<open>JavaScript values\<close>

text \<open>
  The worker is JavaScript: every datum it touches is a dynamically typed value, and its
  control flow rests on truthiness (\<^verbatim>\<open>!x\<close>, \<^verbatim>\<open>a || b\<close>, \<^verbatim>\<open>if (x)\<close>), on optional
  chaining and on strict equality. The embedding therefore works on one type of values.

  A number is an IEEE double: not-a-number, the two infinities, negative zero, or a finite
  value, kept as the rational it denotes. A string is a list of 8-bit characters, read as
  the UTF-16 code units below 256 (ASCII and the Latin-1 supplement); a string with any
  other code unit is outside the embedding. Header names, levels, status codes and URLs
  are ASCII.

  An object is the list of its own enumerable properties in enumeration order (the order
  of \<^verbatim>\<open>Object.entries\<close> and of \<^verbatim>\<open>JSON.stringify\<close>). \<open>Native n\<close> stands for the
  built-in object that \<^verbatim>\<open>Object.prototype\<close> binds to the name \<open>n\<close>; the worker never
  receives one (tail events are plain data), it can only obtain one by reading an object
  literal of its own under an inherited name.
\<close>

datatype jsnum = NaN | PosInf | NegInf | NegZero | Fin rat

datatype jsval =
    Undefined
  | Null
  | Bool bool
  | Num jsnum
  | Str string
  | Arr "jsval list"
  | Obj "(string \<times> jsval) list"
  | Native string

text \<open>\<^verbatim>\<open>ToBoolean\<close>: the falsy values are undefined, null, false, NaN, both zeros and
  the empty string.\<close>

fun truthy :: "jsval \<Rightarrow> bool" where
  "truthy Undefined = False"
| "truthy Null = False"
| "truthy (Bool b) = b"
| "truthy (Num n) = (n \<noteq> NaN \<and> n \<noteq> NegZero \<and> n \<noteq> Fin 0)"
| "truthy (Str s) = (s \<noteq> [])"
| "truthy (Arr xs) = True"
| "truthy (Obj kvs) = True"
| "truthy (Native n) = True"

definition nullish :: "jsval \<Rightarrow> bool" where
  "nullish v = (v = Undefined \<or> v = Null)"

text \<open>\<^verbatim>\<open>a || b\<close>. Both operands of every \<^verbatim>\<open>||\<close> in the program are free of effects,
  so the short circuit is not visible.\<close>

definition or_js :: "jsval \<Rightarrow> jsval \<Rightarrow> jsval" where
  "or_js a b = (if truthy a then a else b)"

text \<open>
  \<^verbatim>\<open>o.k\<close> for an \<open>o\<close> that is neither undefined nor null, and for the property names
  this program reads by name (\<^verbatim>\<open>event\<close>, \<^verbatim>\<open>request\<close>, \<^verbatim>\<open>headers\<close>, \<^verbatim>\<open>cf-ray\<close>, ...):
  none of them is a member of a built-in prototype, so the read finds an own property of
  an object or nothing. Where the source reads \<^verbatim>\<open>o.k\<close> and \<open>o\<close> may be undefined or
  null, the caller tests \<open>nullish o\<close> first and throws.
\<close>

fun getp :: "jsval \<Rightarrow> string \<Rightarrow> jsval" where
  "getp (Obj kvs) k = (case map_of kvs k of Some v \<Rightarrow> v | None \<Rightarrow> Undefined)"
| "getp v k = Undefined"

text \<open>\<^verbatim>\<open>o?.k\<close>\<close>

definition optp :: "jsval \<Rightarrow> string \<Rightarrow> jsval" where
  "optp v k = (if nullish v then Undefined else getp v k)"

section \<open>Strings, numbers and the platform\<close>

text \<open>Decimal digits of a natural number and of an integer, as \<^verbatim>\<open>Number.prototype.toString\<close>
  prints an integer below \<open>10\<^sup>2\<^sup>1\<close> in magnitude.\<close>

definition digit_char :: "nat \<Rightarrow> char" where
  "digit_char d = ''0123456789'' ! d"

fun show_nat :: "nat \<Rightarrow> string" where
  "show_nat n = (if n < 10 then [digit_char n] else show_nat (n div 10) @ [digit_char (n mod 10)])"

declare show_nat.simps [simp del]

definition show_int :: "int \<Rightarrow> string" where
  "show_int i = (if i < 0 then CHR ''-'' # show_nat (nat (- i)) else show_nat (nat i))"

text \<open>\<^verbatim>\<open>Array.prototype.join\<close> on strings.\<close>

fun join :: "string \<Rightarrow> string list \<Rightarrow> string" where
  "join sep [] = []"
| "join sep [x] = x"
| "join sep (x # y # ys) = x @ sep @ join sep (y # ys)"

text \<open>
  The built-ins of the platform that the program calls and whose algorithms are not part
  of the repository are parameters of the embedding: the WHATWG URL parser behind
  \<^verbatim>\<open>new URL(s)\<close> (\<open>None\<close> when it throws), the decimal parser behind \<^verbatim>\<open>parseFloat\<close>,
  the shortest-digits printer of a number that is not a small integer, and the clock
  behind \<^verbatim>\<open>Date.now()\<close>. Every theorem below holds for every platform.
\<close>

record URL =
  hostname :: string
  host :: string
  pathname :: string
  search :: string

record platform =
  url_parse :: "string \<Rightarrow> URL option"
  parse_float :: "string \<Rightarrow> jsnum"
  number_repr :: "rat \<Rightarrow> string"
  date_now :: jsnum

text \<open>
  \<^verbatim>\<open>Number::toString\<close> (radix 10). An integer below \<open>10\<^sup>2\<^sup>1\<close> in magnitude prints as
  plain decimal digits. Up to \<open>2\<^sup>5\<^sup>3\<close> these are the digits of the integer, as printed
  here. Beyond \<open>2\<^sup>5\<^sup>3\<close> the engine prints the shortest digits that read back as the same
  double, padded with zeros, where this definition prints the exact digits: the two strings
  can differ in their low digits and denote the same double. Every other finite number is
  printed by the platform.
\<close>

definition number_toString :: "platform \<Rightarrow> jsnum \<Rightarrow> string" where
  "number_toString P x =
     (case x of
        NaN \<Rightarrow> ''NaN''
      | PosInf \<Rightarrow> ''Infinity''
      | NegInf \<Rightarrow> ''-Infinity''
      | NegZero \<Rightarrow> ''0''
      | Fin r \<Rightarrow>
          if r = of_int \<lfloor>r\<rfloor> \<and> \<bar>r\<bar> < 10 ^ 21 then show_int \<lfloor>r\<rfloor> else number_repr P r)"

text \<open>The source text a built-in function prints; \<^verbatim>\<open>Object.prototype.__proto__\<close> is
  not a function but the prototype object itself.\<close>

definition native_toString :: "string \<Rightarrow> string" where
  "native_toString n =
     (if n = ''__proto__'' then ''[object Object]''
      else ''function '' @ (if n = ''constructor'' then ''Object'' else n) @ ''() { [native code] }'')"

text \<open>
  \<^verbatim>\<open>ToString\<close>, which is also what \<^verbatim>\<open>String(v)\<close> and \<^verbatim>\<open>v.toString()\<close> compute for a
  \<open>v\<close> that is neither undefined nor null. \<open>None\<close> is a thrown \<^verbatim>\<open>TypeError\<close>: a plain
  object whose own property \<^verbatim>\<open>toString\<close> is data, not a function, cannot be converted.
  An array prints its elements joined by commas, undefined and null as the empty string.
\<close>

fun ToString :: "platform \<Rightarrow> jsval \<Rightarrow> string option"
  and ToString_elems :: "platform \<Rightarrow> jsval list \<Rightarrow> string list option" where
  "ToString P Undefined = Some ''undefined''"
| "ToString P Null = Some ''null''"
| "ToString P (Bool b) = Some (if b then ''true'' else ''false'')"
| "ToString P (Num n) = Some (number_toString P n)"
| "ToString P (Str s) = Some s"
| "ToString P (Arr xs) = map_option (join '','') (ToString_elems P xs)"
| "ToString P (Obj kvs) =
     (if map_of kvs ''toString'' = None then Some ''[object Object]'' else None)"
| "ToString P (Native n) = Some (native_toString n)"
| "ToString_elems P [] = Some []"
| "ToString_elems P (x # xs) =
     (case (if x = Undefined \<or> x = Null then Some [] else ToString P x) of
        None \<Rightarrow> None
      | Some a \<Rightarrow> map_option ((#) a) (ToString_elems P xs))"

text \<open>\<^verbatim>\<open>v?.toString()\<close>\<close>

definition opt_toString :: "platform \<Rightarrow> jsval \<Rightarrow> jsval option" where
  "opt_toString P v = (if nullish v then Some Undefined else map_option Str (ToString P v))"

text \<open>\<^verbatim>\<open>new URL(v)\<close>: the argument is converted to a string and parsed with no base.
  \<open>None\<close> is a thrown \<^verbatim>\<open>TypeError\<close>.\<close>

definition new_URL :: "platform \<Rightarrow> jsval \<Rightarrow> URL option" where
  "new_URL P v = (case ToString P v of None \<Rightarrow> None | Some s \<Rightarrow> url_parse P s)"

text \<open>\<^verbatim>\<open>parseFloat(v)\<close>: the argument is converted to a string first.\<close>

definition parseFloat :: "platform \<Rightarrow> jsval \<Rightarrow> jsnum option" where
  "parseFloat P v = map_option (parse_float P) (ToString P v)"

text \<open>
  \<^verbatim>\<open>parseInt(s)\<close> with no radix: leading white space (the white space and line
  terminators below 256: tab, line feed, vertical tab, form feed, carriage return, space
  and no-break space) is skipped, a sign is read, a prefix
  \<^verbatim>\<open>0x\<close> selects radix 16, and the longest run of digits is the value; no digit gives
  NaN. The value is kept exactly; the platform rounds it to the nearest double, which
  is monotone and leaves integers below \<open>2\<^sup>5\<^sup>3\<close> unchanged.
\<close>

definition is_space :: "char \<Rightarrow> bool" where
  "is_space c = (c \<in> set [CHR 0x09, CHR 0x0A, CHR 0x0B, CHR 0x0C, CHR 0x0D, CHR 0x20, CHR 0xA0])"

definition digit_of :: "char \<Rightarrow> nat option" where
  "digit_of c = map_of
     [(CHR ''0'', 0), (CHR ''1'', 1), (CHR ''2'', 2), (CHR ''3'', 3), (CHR ''4'', 4),
      (CHR ''5'', 5), (CHR ''6'', 6), (CHR ''7'', 7), (CHR ''8'', 8), (CHR ''9'', 9),
      (CHR ''a'', 10), (CHR ''b'', 11), (CHR ''c'', 12), (CHR ''d'', 13), (CHR ''e'', 14),
      (CHR ''f'', 15), (CHR ''A'', 10), (CHR ''B'', 11), (CHR ''C'', 12), (CHR ''D'', 13),
      (CHR ''E'', 14), (CHR ''F'', 15)] c"

definition is_digit :: "nat \<Rightarrow> char \<Rightarrow> bool" where
  "is_digit radix c = (case digit_of c of None \<Rightarrow> False | Some d \<Rightarrow> d < radix)"

definition digits_value :: "nat \<Rightarrow> string \<Rightarrow> nat" where
  "digits_value radix ds = foldl (\<lambda>a c. a * radix + the (digit_of c)) 0 ds"

definition parseInt :: "string \<Rightarrow> jsnum" where
  "parseInt s =
     (let s1 = dropWhile is_space s;
          neg = (take 1 s1 = ''-'');
          s2 = (if take 1 s1 = ''-'' \<or> take 1 s1 = ''+'' then drop 1 s1 else s1);
          hex = (take 2 s2 = ''0x'' \<or> take 2 s2 = ''0X'');
          radix = (if hex then 16 else 10);
          s3 = (if hex then drop 2 s2 else s2);
          ds = takeWhile (is_digit radix) s3
      in if ds = [] then NaN
         else if neg then (if digits_value radix ds = 0 then NegZero
                           else Fin (- of_nat (digits_value radix ds)))
         else Fin (of_nat (digits_value radix ds)))"

text \<open>
  \<^verbatim>\<open>s.toLowerCase()\<close>: the letters A to Z, and the capital letters of the Latin-1
  supplement (code units 192 to 222 but for the multiplication sign 215), move to the
  small letter 32 places up; no other code unit below 256 changes. Then
  \<^verbatim>\<open>s.replace(/c/g, d)\<close> for one character and \<^verbatim>\<open>s.replace(c, r)\<close>, which replaces the
  first occurrence only.
\<close>

definition lower_char :: "char \<Rightarrow> char" where
  "lower_char c =
     (case map_of (zip ''ABCDEFGHIJKLMNOPQRSTUVWXYZ'' ''abcdefghijklmnopqrstuvwxyz'') c of
        Some d \<Rightarrow> d
      | None \<Rightarrow>
          if (192::nat) \<le> of_char c \<and> of_char c \<le> (222::nat) \<and> of_char c \<noteq> (215::nat)
          then char_of (of_char c + (32::nat))
          else c)"

definition toLowerCase :: "string \<Rightarrow> string" where
  "toLowerCase s = map lower_char s"

definition replace_all :: "char \<Rightarrow> char \<Rightarrow> string \<Rightarrow> string" where
  "replace_all c d s = map (\<lambda>x. if x = c then d else x) s"

fun replace_first :: "char \<Rightarrow> string \<Rightarrow> string \<Rightarrow> string" where
  "replace_first c r [] = []"
| "replace_first c r (x # xs) = (if x = c then r @ xs else x # replace_first c r xs)"

subsection \<open>\<^verbatim>\<open>JSON.stringify\<close>\<close>

text \<open>
  Strings are quoted with the escapes of the standard. A property whose value is
  undefined or a function is left out of an object and printed as \<^verbatim>\<open>null\<close> in an array;
  a number that is not finite prints as \<^verbatim>\<open>null\<close>. The result for a value that is itself
  skipped is \<^verbatim>\<open>undefined\<close>.
\<close>

definition hex_char :: "nat \<Rightarrow> char" where
  "hex_char d = ''0123456789abcdef'' ! d"

definition json_quote_char :: "char \<Rightarrow> string" where
  "json_quote_char c =
     (if c = CHR 0x22 then [CHR 0x5C, CHR 0x22]
      else if c = CHR 0x5C then [CHR 0x5C, CHR 0x5C]
      else if c = CHR 0x08 then [CHR 0x5C, CHR ''b'']
      else if c = CHR 0x0C then [CHR 0x5C, CHR ''f'']
      else if c = CHR 0x0A then [CHR 0x5C, CHR ''n'']
      else if c = CHR 0x0D then [CHR 0x5C, CHR ''r'']
      else if c = CHR 0x09 then [CHR 0x5C, CHR ''t'']
      else if (of_char c :: nat) < 32
        then [CHR 0x5C, CHR ''u'', CHR ''0'', CHR ''0'',
              hex_char (of_char c div 16), hex_char (of_char c mod 16)]
      else [c])"

definition json_quote :: "string \<Rightarrow> string" where
  "json_quote s = [CHR 0x22] @ concat (map json_quote_char s) @ [CHR 0x22]"

fun json_value :: "platform \<Rightarrow> jsval \<Rightarrow> string option"
  and json_elems :: "platform \<Rightarrow> jsval list \<Rightarrow> string list"
  and json_props :: "platform \<Rightarrow> (string \<times> jsval) list \<Rightarrow> string list" where
  "json_value P Undefined = None"
| "json_value P Null = Some ''null''"
| "json_value P (Bool b) = Some (if b then ''true'' else ''false'')"
| "json_value P (Num n) =
     Some (if n = NaN \<or> n = PosInf \<or> n = NegInf then ''null'' else number_toString P n)"
| "json_value P (Str s) = Some (json_quote s)"
| "json_value P (Arr xs) = Some (''['' @ join '','' (json_elems P xs) @ '']'')"
| "json_value P (Obj kvs) = Some (''{'' @ join '','' (json_props P kvs) @ ''}'')"
| "json_value P (Native n) = (if n = ''__proto__'' then Some ''{}'' else None)"
| "json_elems P [] = []"
| "json_elems P (x # xs) =
     (case json_value P x of None \<Rightarrow> ''null'' | Some s \<Rightarrow> s) # json_elems P xs"
| "json_props P [] = []"
| "json_props P (kv # kvs) =
     (case json_value P (snd kv) of
        None \<Rightarrow> json_props P kvs
      | Some s \<Rightarrow> (json_quote (fst kv) @ '':'' @ s) # json_props P kvs)"

definition JSON_stringify :: "platform \<Rightarrow> jsval \<Rightarrow> jsval" where
  "JSON_stringify P v = (case json_value P v of None \<Rightarrow> Undefined | Some s \<Rightarrow> Str s)"

section \<open>Field resolver: \<^verbatim>\<open>getValueOrLog\<close> (index.js, lines 172-183)\<close>

text \<open>
  The function returns its argument when it is none of undefined, null and the empty
  string (strict comparisons), and \<^verbatim>\<open>null\<close> otherwise. On a miss it also writes a
  sampled \<^verbatim>\<open>console.warn\<close> line; console output is no part of any returned value and is
  left out of the embedding, here and in the functions below.
\<close>

definition getValueOrLog :: "jsval \<Rightarrow> string \<Rightarrow> string \<Rightarrow> jsval" where
  "getValueOrLog v fieldName ctx =
     (if v \<noteq> Undefined \<and> v \<noteq> Null \<and> v \<noteq> Str [] then v else Null)"

section \<open>HTTP-record converter: \<^verbatim>\<open>tailEvent2fastly\<close> (index.js, lines 29-112)\<close>

text \<open>
  \<^verbatim>\<open>Object.entries(v)\<close> for a truthy \<open>v\<close>: the own properties of an object, the indexed
  elements of an array or of a string, and nothing for a number, a boolean or a function.
\<close>

fun entries :: "jsval \<Rightarrow> (string \<times> jsval) list" where
  "entries (Obj kvs) = kvs"
| "entries (Arr xs) = zip (map show_nat [0 ..< length xs]) xs"
| "entries (Str s) = zip (map show_nat [0 ..< length s]) (map (\<lambda>c. Str [c]) s)"
| "entries v = []"

text \<open>
  \<^verbatim>\<open>acc[k] = v\<close> on the accumulator, which starts as the literal \<^verbatim>\<open>{}\<close>. The
  accumulator is kept as its own properties and its prototype: \<^verbatim>\<open>Object.prototype\<close> at
  first, and later \<^verbatim>\<open>null\<close> or a value of the input once the program has assigned such
  a value under the name \<^verbatim>\<open>__proto__\<close>.

  For every other name the assignment creates or overwrites an own property: a new key
  is added after the existing ones and an existing key keeps its place. The name
  \<^verbatim>\<open>__proto__\<close> is an accessor of \<^verbatim>\<open>Object.prototype\<close>. While the accumulator inherits
  it, an assignment under that name creates no own property: it replaces the prototype
  when the value is null or an object and does nothing for any other value. The
  accumulator no longer inherits the accessor once its prototype is \<^verbatim>\<open>null\<close>, or is an
  object of the input with an own property \<^verbatim>\<open>__proto__\<close>; from then on the name is
  assigned like any other. (The objects of the input are plain data, so their own
  prototype is \<^verbatim>\<open>Object.prototype\<close> and their properties are writable. The engine lists
  keys that are array indices before all others; the list kept here is in order of
  insertion, which is the engine's order whenever no key is an index.)
\<close>

datatype prototype = ObjectPrototype | NullPrototype | ValuePrototype jsval

fun inherits_proto_accessor :: "prototype \<Rightarrow> bool" where
  "inherits_proto_accessor ObjectPrototype = True"
| "inherits_proto_accessor NullPrototype = False"
| "inherits_proto_accessor (ValuePrototype (Obj kvs)) = (map_of kvs ''__proto__'' = None)"
| "inherits_proto_accessor (ValuePrototype v) = True"

fun is_object :: "jsval \<Rightarrow> bool" where
  "is_object (Arr xs) = True"
| "is_object (Obj kvs) = True"
| "is_object (Native n) = True"
| "is_object v = False"

definition assign ::
  "string \<Rightarrow> jsval \<Rightarrow> (string \<times> jsval) list \<times> prototype \<Rightarrow> (string \<times> jsval) list \<times> prototype" where
  "assign k v acc =
     (if k = ''__proto__'' \<and> inherits_proto_accessor (snd acc)
      then (fst acc,
            if v = Null then NullPrototype
            else if is_object v then ValuePrototype v
            else snd acc)
      else (AList.update k v (fst acc), snd acc))"

text \<open>\<^verbatim>\<open>key.toLowerCase().replace(/-/g, '_')\<close>\<close>

definition foldKey :: "string \<Rightarrow> string" where
  "foldKey key = replace_all (CHR ''-'') (CHR ''_'') (toLowerCase key)"

text \<open>
  \<^verbatim>\<open>Object.entries(h).reduce((acc, [key, value]) => { acc[...] = value; return acc; }, {})\<close>:
  the own properties of the accumulator at the end, which are what the record holds and
  what \<^verbatim>\<open>JSON.stringify\<close> prints.
\<close>

definition foldHeaders :: "jsval \<Rightarrow> (string \<times> jsval) list" where
  "foldHeaders h =
     fst (foldl (\<lambda>acc kv. assign (foldKey (fst kv)) (snd kv) acc) ([], ObjectPrototype) (entries h))"

text \<open>
  The five constants the converter binds first (lines 30-34): \<^verbatim>\<open>tailEvent.event?.request\<close>,
  \<^verbatim>\<open>tailEvent.event?.response\<close>, \<^verbatim>\<open>request?.cf\<close>, \<^verbatim>\<open>request?.headers || {}\<close> and
  \<^verbatim>\<open>response?.headers || {}\<close>.
\<close>

definition event_request :: "jsval \<Rightarrow> jsval" where
  "event_request tailEvent = optp (getp tailEvent ''event'') ''request''"

definition event_response :: "jsval \<Rightarrow> jsval" where
  "event_response tailEvent = optp (getp tailEvent ''event'') ''response''"

definition request_cf :: "jsval \<Rightarrow> jsval" where
  "request_cf tailEvent = optp (event_request tailEvent) ''cf''"

definition request_headers :: "jsval \<Rightarrow> jsval" where
  "request_headers tailEvent = or_js (optp (event_request tailEvent) ''headers'') (Obj [])"

definition response_headers :: "jsval \<Rightarrow> jsval" where
  "response_headers tailEvent = or_js (optp (event_response tailEvent) ''headers'') (Obj [])"

text \<open>
  The object literal the converter returns (lines 48-111), given the parsed URL and the
  four values whose computation can throw: \<^verbatim>\<open>response?.status?.toString()\<close>,
  \<^verbatim>\<open>parseFloat(cf?.latitude)\<close>, \<^verbatim>\<open>parseFloat(cf?.longitude)\<close> and
  \<^verbatim>\<open>cf?.asn?.toString()\<close>.
\<close>

definition fastly_record :: "jsval \<Rightarrow> URL \<Rightarrow> jsval \<Rightarrow> jsnum \<Rightarrow> jsnum \<Rightarrow> jsval \<Rightarrow> jsval" where
  "fastly_record tailEvent parsedUrl status lat lon asn_number =
     (let request = event_request tailEvent;
          cf = request_cf tailEvent;
          headers = request_headers tailEvent;
          responseHeaders = response_headers tailEvent
      in Obj
        [(''request'', Obj
           [(''method'', getp request ''method''),
            (''host'', or_js (getp headers ''host'') (Str (hostname parsedUrl))),
            (''url'', Str (pathname parsedUrl)),
            (''qs'', Str (replace_first (CHR ''?'') [] (search parsedUrl))),
            (''protocol'', optp cf ''httpProtocol''),
            (''backend'', Str ''cloudflare_worker''),
            (''restarts'', Num (Fin 0)),
            (''body_size'', Num (Fin 0)),
            (''headers'', Obj (foldHeaders headers))]),
         (''response'', Obj
           [(''status'', status),
            (''body_size'', Num (Fin 0)),
            (''headers'', Obj (foldHeaders responseHeaders))]),
         (''helix'', Obj
           [(''request_type'', Str ''dynamic''),
            (''backend_type'', Str ''cloudflare''),
            (''contentbus_prefix'', Str ''live'')]),
         (''client'', Obj
           [(''name'', optp cf ''asOrganization''),
            (''number'', optp cf ''asn''),
            (''city_name'', optp cf ''city''),
            (''country_name'', optp cf ''country''),
            (''ip'', or_js (optp cf ''ip'') (getp headers ''cf-connecting-ip''))]),
         (''cdn'', Obj
           [(''originating_ip_geoip'', Obj
              [(''ip'', or_js (optp cf ''ip'') (getp headers ''cf-connecting-ip'')),
               (''ip_ipaddr'', or_js (optp cf ''ip'') (getp headers ''cf-connecting-ip'')),
               (''location_geopoint'', Obj
                  [(''lat'', or_js (Num lat) Undefined),
                   (''lon'', or_js (Num lon) Undefined)]),
               (''continent_name'', optp cf ''continent''),
               (''country_name'', optp cf ''country''),
               (''city_name'', optp cf ''city''),
               (''postal_code'', optp cf ''postalCode''),
               (''is_local'', Bool False),
               (''asn'', Obj
                  [(''number'', asn_number),
                   (''organization'', optp cf ''asOrganization'')])]),
            (''version'', Str ''1''),
            (''url'', getp request ''url''),
            (''originating_ip'', or_js (optp cf ''ip'') (getp headers ''cf-connecting-ip'')),
            (''time_elapsed_msec'', getp tailEvent ''wallTime''),
            (''is_edge'', Bool True),
            (''datacenter'', optp cf ''colo''),
            (''region_code'', optp cf ''regionCode''),
            (''cache_status'', getp responseHeaders ''cf-cache-status''),
            (''cache_ttl'', Num (Fin 0))])])"

text \<open>
  The converter. \<open>None\<close> is a thrown \<^verbatim>\<open>TypeError\<close> (the argument itself is undefined or
  null, or a value handed to \<^verbatim>\<open>toString\<close> or \<^verbatim>\<open>parseFloat\<close> cannot be converted);
  \<open>Some Null\<close> is the \<^verbatim>\<open>return null\<close> of lines 37 and 45.
\<close>

definition tailEvent2fastly :: "platform \<Rightarrow> jsval \<Rightarrow> jsval option" where
  "tailEvent2fastly P tailEvent =
     (if nullish tailEvent then None
      else
        let request = event_request tailEvent;
            response = event_response tailEvent;
            cf = request_cf tailEvent
        in
          if \<not> truthy request then Some Null
          else
            case new_URL P (getp request ''url'') of
              None \<Rightarrow> Some Null
            | Some parsedUrl \<Rightarrow>
                (case opt_toString P (optp response ''status'') of
                   None \<Rightarrow> None
                 | Some status \<Rightarrow>
                (case parseFloat P (optp cf ''latitude'') of
                   None \<Rightarrow> None
                 | Some lat \<Rightarrow>
                (case parseFloat P (optp cf ''longitude'') of
                   None \<Rightarrow> None
                 | Some lon \<Rightarrow>
                (case opt_toString P (optp cf ''asn'') of
                   None \<Rightarrow> None
                 | Some asn_number \<Rightarrow>
                     Some (fastly_record tailEvent parsedUrl status lat lon asn_number))))))"

section \<open>Log normalizer: \<^verbatim>\<open>extractRayId\<close>, \<^verbatim>\<open>createCoralogixLog\<close> (index.js, lines 186-312)\<close>

text \<open>
  \<^verbatim>\<open>extractRayId(event, logData)\<close>. The function returns \<^verbatim>\<open>undefined\<close> as soon as there
  is no request (line 191) or the request has no headers (line 197); only after both
  tests does it look at the \<^verbatim>\<open>cf-ray\<close> header, at \<^verbatim>\<open>cf.ray\<close> and at \<^verbatim>\<open>event.rayId\<close>.
  \<open>None\<close> is a thrown \<^verbatim>\<open>TypeError\<close> (\<open>event\<close>, or \<open>logData\<close> when it is read, is undefined
  or null).
\<close>

definition extractRayId :: "jsval \<Rightarrow> jsval \<Rightarrow> jsval option" where
  "extractRayId event logData =
     (if nullish event then None
      else if \<not> truthy (event_request event) \<and> nullish logData then None
      else
        let request = or_js (event_request event) (getp logData ''request'') in
          if \<not> truthy request then Some Undefined
          else
            let requestHeaders = getp request ''headers'' in
              if \<not> truthy requestHeaders then Some Undefined
              else
                let cfRayHeader =
                      getValueOrLog (getp requestHeaders ''cf-ray'') ''cf-ray header'' ''request headers'' in
                  if truthy cfRayHeader then Some cfRayHeader
                  else
                    let cfRayObject =
                          getValueOrLog (optp (getp request ''cf'') ''ray'') ''cf.ray'' ''cf object'' in
                      if truthy cfRayObject then Some cfRayObject
                      else
                        let eventRayId = getValueOrLog (getp event ''rayId'') ''rayId'' ''event'' in
                          if truthy eventRayId then Some eventRayId
                          else Some Undefined)"

text \<open>
  \<^verbatim>\<open>SEVERITY_MAP\<close> (lines 9-15) is an object literal, so \<^verbatim>\<open>SEVERITY_MAP[k]\<close> finds its
  five own properties and, for any other \<open>k\<close>, what \<^verbatim>\<open>Object.prototype\<close> holds under
  that name.
\<close>

definition SEVERITY_MAP :: "(string \<times> jsval) list" where
  "SEVERITY_MAP =
     [(''debug'', Num (Fin 1)), (''info'', Num (Fin 3)), (''log'', Num (Fin 3)),
      (''warn'', Num (Fin 4)), (''error'', Num (Fin 5))]"

definition object_prototype_names :: "string list" where
  "object_prototype_names =
     [''constructor'', ''hasOwnProperty'', ''isPrototypeOf'', ''propertyIsEnumerable'',
      ''toLocaleString'', ''toString'', ''valueOf'', ''__proto__'',
      ''__defineGetter__'', ''__defineSetter__'', ''__lookupGetter__'', ''__lookupSetter__'']"

definition literal_get :: "(string \<times> jsval) list \<Rightarrow> string \<Rightarrow> jsval" where
  "literal_get kvs k =
     (case map_of kvs k of
        Some v \<Rightarrow> v
      | None \<Rightarrow> if k \<in> set object_prototype_names then Native k else Undefined)"

text \<open>\<^verbatim>\<open>typeof v === 'object'\<close>\<close>

fun typeof_object :: "jsval \<Rightarrow> bool" where
  "typeof_object Null = True"
| "typeof_object (Arr xs) = True"
| "typeof_object (Obj kvs) = True"
| "typeof_object (Native n) = (n = ''__proto__'')"
| "typeof_object v = False"

text \<open>\<^verbatim>\<open>formatConsoleMessage\<close> (lines 301-312); \<open>None\<close> is a \<^verbatim>\<open>TypeError\<close> thrown by
  \<^verbatim>\<open>String\<close>.\<close>

definition format_item :: "platform \<Rightarrow> jsval \<Rightarrow> jsval option" where
  "format_item P item =
     (if typeof_object item then Some (JSON_stringify P item)
      else map_option Str (ToString P item))"

definition formatConsoleMessage :: "platform \<Rightarrow> jsval \<Rightarrow> jsval option" where
  "formatConsoleMessage P message =
     (case message of
        Arr items \<Rightarrow>
          (case those (map (format_item P) items) of
             None \<Rightarrow> None
           | Some parts \<Rightarrow> map_option (\<lambda>ss. Str (join '' '' ss)) (ToString_elems P parts))
      | _ \<Rightarrow> map_option Str (ToString P message))"

text \<open>
  \<^verbatim>\<open>createCoralogixLog(logData, event, env, type)\<close>. A record is the list of the
  properties of \<^verbatim>\<open>log\<close>, in the order the program creates them; an assignment to a
  property that exists keeps its place and \<^verbatim>\<open>methodName\<close>, which the literal of line 233
  does not have, is added at the end by the branches that set it.

  \<open>base_log\<close> is that literal (lines 233-243) and \<open>status_severity\<close> the comparison of
  lines 281-287 on the result of \<^verbatim>\<open>parseInt\<close>: a comparison with NaN is false.
\<close>

definition base_log :: "platform \<Rightarrow> jsval \<Rightarrow> jsval \<Rightarrow> jsval \<Rightarrow> jsval \<Rightarrow> jsval \<Rightarrow> (string \<times> jsval) list" where
  "base_log P logData event env type rayId =
     (let timestamp = or_js (getp logData ''timestamp'') (Num (date_now P));
          scriptName = getp event ''scriptName''
      in [(''timestamp'', timestamp),
          (''applicationName'', or_js (getp env ''APPLICATION_NAME'') (Str ''cloudflare-tail'')),
          (''subsystemName'', or_js scriptName (getp env ''SUBSYSTEM_NAME'')),
          (''computerName'', scriptName),
          (''severity'', Num (Fin 3)),
          (''text'', Str []),
          (''category'', type),
          (''className'', Str ''TailWorker''),
          (''threadId'', or_js rayId scriptName)])"

definition status_severity :: "jsnum \<Rightarrow> jsval" where
  "status_severity statusCode =
     (case statusCode of
        Fin c \<Rightarrow> if c \<ge> 500 then Num (Fin 5) else if c \<ge> 400 then Num (Fin 4) else Num (Fin 3)
      | PosInf \<Rightarrow> Num (Fin 5)
      | _ \<Rightarrow> Num (Fin 3))"

text \<open>The function itself; \<open>None\<close> is a thrown \<^verbatim>\<open>TypeError\<close>.\<close>

definition createCoralogixLog :: "platform \<Rightarrow> jsval \<Rightarrow> jsval \<Rightarrow> jsval \<Rightarrow> jsval \<Rightarrow> jsval option" where
  "createCoralogixLog P logData event env type =
     (if nullish logData then None
      else
        case extractRayId event logData of
          None \<Rightarrow> None
        | Some rayId \<Rightarrow>
            if nullish env then None
            else
              let log = base_log P logData event env type rayId in
                if type = Str ''console'' then
                  (case ToString P (getp logData ''level'') of
                     None \<Rightarrow> None
                   | Some level_key \<Rightarrow>
                  (case formatConsoleMessage P (getp logData ''message'') of
                     None \<Rightarrow> None
                   | Some text \<Rightarrow>
                     Some (Obj
                       (AList.update ''methodName'' (getp logData ''level'')
                       (AList.update ''text'' text
                       (AList.update ''severity''
                          (or_js (literal_get SEVERITY_MAP level_key) (Num (Fin 3))) log))))))
                else if type = Str ''exception'' then
                  Some (Obj
                    (AList.update ''methodName'' (Str ''exception'')
                    (AList.update ''className'' (getp logData ''name'')
                    (AList.update ''text''
                       (JSON_stringify P (Obj
                          [(''name'', getp logData ''name''),
                           (''message'', getp logData ''message''),
                           (''timestamp'', getp logData ''timestamp'')]))
                    (AList.update ''severity'' (Num (Fin 5)) log)))))
                else if type = Str ''fetch'' then
                  (case tailEvent2fastly P event of
                     None \<Rightarrow> None
                   | Some fastlyLog \<Rightarrow>
                       if \<not> truthy fastlyLog then
                         Some (Obj (AList.update ''text'' (Str ''Failed to convert fetch event'') log))
                       else
                         let log' = AList.update ''methodName'' (Str ''fetch'')
                                      (AList.update ''text'' (JSON_stringify P fastlyLog) log);
                             status = optp (getp fastlyLog ''response'') ''status''
                         in
                           if truthy status then
                             (case ToString P status of
                                None \<Rightarrow> None
                              | Some s \<Rightarrow>
                                  Some (Obj (AList.update ''severity''
                                               (status_severity (parseInt s)) log')))
                           else Some (Obj log'))
                else Some (Obj log))"

section \<open>Dispatcher: \<^verbatim>\<open>tail\<close> (index.js, lines 115-160)\<close>

text \<open>
  \<^verbatim>\<open>for (const x of v)\<close>: an array yields its elements and a string its characters; any
  other value is not iterable and the loop throws (\<open>None\<close>).
\<close>

fun iterate :: "jsval \<Rightarrow> jsval list option" where
  "iterate (Arr xs) = Some xs"
| "iterate (Str s) = Some (map (\<lambda>c. Str [c]) s)"
| "iterate v = None"

text \<open>
  The body of the loop over one batch (lines 134-153) for one owning event: the records
  it pushes onto \<^verbatim>\<open>logs\<close>, or \<open>None\<close> when it throws.
\<close>

definition fetch_present :: "jsval \<Rightarrow> bool" where
  "fetch_present event =
     (truthy (getp event ''event'') \<and> truthy (getp (getp event ''event'') ''request''))"

definition process_event :: "platform \<Rightarrow> jsval \<Rightarrow> jsval \<Rightarrow> jsval list option" where
  "process_event P env event =
     (if nullish event then None
      else
        case (if truthy (getp event ''logs'')
              then (case iterate (getp event ''logs'') of
                      None \<Rightarrow> None
                    | Some items \<Rightarrow>
                        those (map (\<lambda>log. createCoralogixLog P log event env (Str ''console'')) items))
              else Some []) of
          None \<Rightarrow> None
        | Some console_logs \<Rightarrow>
        (case (if truthy (getp event ''exceptions'')
               then (case iterate (getp event ''exceptions'') of
                       None \<Rightarrow> None
                     | Some items \<Rightarrow>
                         those (map (\<lambda>exception. createCoralogixLog P exception event env (Str ''exception'')) items))
               else Some []) of
           None \<Rightarrow> None
         | Some exception_logs \<Rightarrow>
         (if fetch_present event
          then (case createCoralogixLog P (getp event ''event'') event env (Str ''fetch'') of
                  None \<Rightarrow> None
                | Some fetch_log \<Rightarrow> Some (console_logs @ exception_logs @ [fetch_log]))
          else Some (console_logs @ exception_logs))))"

text \<open>The records of one batch: the events in order, stopping at the first throw.\<close>

fun process_batch :: "platform \<Rightarrow> jsval \<Rightarrow> jsval list \<Rightarrow> jsval list option" where
  "process_batch P env [] = Some []"
| "process_batch P env (event # events) =
     (case process_event P env event of
        None \<Rightarrow> None
      | Some logs \<Rightarrow> map_option ((@) logs) (process_batch P env events))"

text \<open>\<^verbatim>\<open>events.slice(i, i + batchSize)\<close> for \<open>i = 0, batchSize, ...\<close> (lines 123-128).\<close>

definition batchSize :: nat where
  "batchSize = 100"

function slices :: "'a list \<Rightarrow> 'a list list" where
  "slices xs = (if xs = [] then [] else take batchSize xs # slices (drop batchSize xs))"
  by pat_completeness auto
termination
  by (relation "measure length") (auto simp: batchSize_def)

declare slices.simps [simp del]

text \<open>
  The outcome of \<^verbatim>\<open>tail(events, env, ctx)\<close>: the bodies handed to \<^verbatim>\<open>sendToCoralogix\<close>
  through \<^verbatim>\<open>ctx.waitUntil\<close>, one per batch with at least one record, and whether the
  handler threw in the middle (the batches before the throw are already scheduled).
\<close>

fun run_batches :: "platform \<Rightarrow> jsval \<Rightarrow> jsval list list \<Rightarrow> jsval list list \<times> bool" where
  "run_batches P env [] = ([], False)"
| "run_batches P env (batch # batches) =
     (case process_batch P env batch of
        None \<Rightarrow> ([], True)
      | Some logs \<Rightarrow>
          (let rest = run_batches P env batches
           in ((if logs = [] then [] else [logs]) @ fst rest, snd rest)))"

definition tail :: "platform \<Rightarrow> jsval list \<Rightarrow> jsval \<Rightarrow> jsval list list \<times> bool" where
  "tail P events env =
     (if nullish env then ([], True)
      else if \<not> truthy (getp env ''CORALOGIX_API_KEY'') \<or> \<not> truthy (getp env ''CORALOGIX_ENDPOINT'')
        then ([], False)
      else run_batches P env (slices events))"

text \<open>The items one of the two inner loops visits: none when the property is falsy.\<close>

definition items :: "jsval \<Rightarrow> jsval list" where
  "items v = (if truthy v then (case iterate v of None \<Rightarrow> [] | Some xs \<Rightarrow> xs) else [])"

section \<open>A platform for the examples\<close>

text \<open>
  The theorems quantify over the platform; the concrete examples need one. This one
  answers as the engine does on the strings the examples hand to it: two URLs, three
  decimal numerals (each a double exactly) and the printed forms of two of them. Every
  other string is rejected by its URL parser and is not-a-number for its decimal parser,
  which is what the engine does with the remaining strings of the examples
  (\<^verbatim>\<open>"undefined"\<close>, \<^verbatim>\<open>"not-a-valid-url"\<close>, \<^verbatim>\<open>"not-a-number"\<close>); the examples print no
  other number that is not an integer.
\<close>

definition sample_platform :: platform where
  "sample_platform =
     \<lparr>url_parse = (\<lambda>s.
          if s = ''https://minivelos.bike/bikes/lars-moulton-tsr''
            then Some \<lparr>hostname = ''minivelos.bike'', host = ''minivelos.bike'',
                        pathname = ''/bikes/lars-moulton-tsr'', search = []\<rparr>
          else if s = ''https://example.com:8443/a/b?x=1&y=2''
            then Some \<lparr>hostname = ''example.com'', host = ''example.com:8443'',
                        pathname = ''/a/b'', search = ''?x=1&y=2''\<rparr>
          else None),
      parse_float = (\<lambda>s.
          if s = ''0'' then Fin 0
          else if s = ''52.5'' then Fin (105 / 2)
          else if s = ''13.25'' then Fin (53 / 4)
          else NaN),
      number_repr = (\<lambda>r.
          if r = 105 / 2 then ''52.5''
          else if r = 53 / 4 then ''13.25''
          else []),
      date_now = Fin 1700000000000\<rparr>"

text \<open>
  A configuration, and owning events for the examples: a fetch event shaped like the
  fixture of the repository's test, with the response status left open; the same request
  on a URL with an explicit port and no \<^verbatim>\<open>host\<close> header; a fetch event from the equator;
  an event with one console item, one exception and a fetch sub-event; and an event that
  has console items and a \<^verbatim>\<open>rayId\<close> but no fetch sub-event.
\<close>

definition sample_env :: jsval where
  "sample_env =
     Obj [(''CORALOGIX_API_KEY'', Str ''key''),
          (''CORALOGIX_ENDPOINT'', Str ''https://ingress.eu1.coralogix.com/logs/v1/singles''),
          (''APPLICATION_NAME'', Str ''cloudflare-tail''),
          (''SUBSYSTEM_NAME'', Str ''unknown-worker'')]"

definition sample_cf :: "string \<Rightarrow> jsval" where
  "sample_cf latitude =
     Obj [(''httpProtocol'', Str ''HTTP/2''), (''asn'', Num (Fin 8881)),
          (''asOrganization'', Str ''1&1 Versatel GmbH''), (''city'', Str ''Potsdam''),
          (''country'', Str ''DE''), (''continent'', Str ''EU''), (''colo'', Str ''TXL''),
          (''latitude'', Str latitude), (''longitude'', Str ''13.25'')]"

definition fetch_event :: "jsval \<Rightarrow> jsval" where
  "fetch_event status =
     Obj [(''scriptName'', Str ''my-worker''),
          (''wallTime'', Num (Fin 28)),
          (''event'', Obj
             [(''request'', Obj
                 [(''url'', Str ''https://minivelos.bike/bikes/lars-moulton-tsr''),
                  (''method'', Str ''GET''),
                  (''headers'', Obj [(''accept-encoding'', Str ''gzip''),
                                     (''cf-ray'', Str ''8f2a1b3c4d5e6f70''),
                                     (''host'', Str ''minivelos.bike'')]),
                  (''cf'', sample_cf ''52.5'')]),
              (''response'', Obj [(''status'', status)])])]"

definition port_event :: jsval where
  "port_event =
     Obj [(''scriptName'', Str ''my-worker''),
          (''wallTime'', Num (Fin 28)),
          (''event'', Obj
             [(''request'', Obj
                 [(''url'', Str ''https://example.com:8443/a/b?x=1&y=2''),
                  (''method'', Str ''GET''),
                  (''headers'', Obj [(''accept-encoding'', Str ''gzip'')]),
                  (''cf'', sample_cf ''52.5'')]),
              (''response'', Obj [(''status'', Num (Fin 200))])])]"

definition equator_event :: jsval where
  "equator_event =
     Obj [(''scriptName'', Str ''my-worker''),
          (''wallTime'', Num (Fin 28)),
          (''event'', Obj
             [(''request'', Obj
                 [(''url'', Str ''https://minivelos.bike/bikes/lars-moulton-tsr''),
                  (''method'', Str ''GET''),
                  (''headers'', Obj [(''accept-encoding'', Str ''gzip'')]),
                  (''cf'', sample_cf ''0'')]),
              (''response'', Obj [(''status'', Num (Fin 200))])])]"

definition mixed_event :: jsval where
  "mixed_event =
     Obj [(''scriptName'', Str ''my-worker''),
          (''logs'', Arr [Obj [(''level'', Str ''warn''),
                               (''message'', Arr [Str ''a'', Obj [(''b'', Num (Fin 1))]]),
                               (''timestamp'', Num (Fin 1700000000001))]]),
          (''exceptions'', Arr [Obj [(''name'', Str ''Error''), (''message'', Str ''boom''),
                                     (''timestamp'', Num (Fin 1700000000002))]]),
          (''event'', Obj
             [(''request'', Obj
                 [(''url'', Str ''https://minivelos.bike/bikes/lars-moulton-tsr''),
                  (''method'', Str ''GET''),
                  (''headers'', Obj [(''cf-ray'', Str ''8f2a1b3c4d5e6f70'')])]),
              (''response'', Obj [(''status'', Num (Fin 200))])])]"

definition console_event :: "string \<Rightarrow> jsval" where
  "console_event level =
     Obj [(''scriptName'', Str ''my-worker''),
          (''rayId'', Str ''8f2a1b3c4d5e6f70''),
          (''logs'', Arr [Obj [(''level'', Str level),
                               (''message'', Arr [Str ''started'']),
                               (''timestamp'', Num (Fin 1700000000001))]])]"

text \<open>A fetch event whose URL does not parse.\<close>

definition bad_url_event :: jsval where
  "bad_url_event =
     Obj [(''scriptName'', Str ''my-worker''),
          (''event'', Obj
             [(''request'', Obj [(''url'', Str ''not-a-valid-url''), (''headers'', Obj [])])])]"

text \<open>
  A fetch event whose request carries a header named \<^verbatim>\<open>__proto__\<close>, next to an ordinary
  header.
\<close>

definition proto_header_event :: jsval where
  "proto_header_event =
     Obj [(''scriptName'', Str ''my-worker''),
          (''event'', Obj
             [(''request'', Obj
                 [(''url'', Str ''https://minivelos.bike/bikes/lars-moulton-tsr''),
                  (''method'', Str ''GET''),
                  (''headers'', Obj [(''__proto__'', Str ''a''), (''X-A'', Str ''b'')])]),
              (''response'', Obj [(''status'', Num (Fin 200))])])]"

text \<open>
  An event whose \<^verbatim>\<open>event\<close> property is there and carries a response and no request.
\<close>

definition no_request_event :: jsval where
  "no_request_event =
     Obj [(''scriptName'', Str ''my-worker''),
          (''event'', Obj [(''response'', Obj [(''status'', Num (Fin 200))])])]"

section \<open>Verified properties\<close>

text \<open>
  C8. For every input value, the field resolver returns the absent marker (\<^verbatim>\<open>null\<close>)
  exactly when the value is undefined, null or the empty string, and returns the value
  unchanged otherwise; the falsy values \<open>0\<close> and \<open>false\<close> count as present. The result on a
  miss is \<^verbatim>\<open>null\<close>, never a string.
\<close>

theorem getValueOrLog_absent_iff_missing:
  "(getValueOrLog v fieldName ctx = Null \<longleftrightarrow> v = Undefined \<or> v = Null \<or> v = Str [])
   \<and> getValueOrLog v fieldName ctx = (if v = Undefined \<or> v = Null \<or> v = Str [] then Null else v)
   \<and> getValueOrLog (Num (Fin 0)) fieldName ctx = Num (Fin 0)
   \<and> getValueOrLog (Bool False) fieldName ctx = Bool False"
  by (auto simp: getValueOrLog_def)

theorem getValueOrLog_absent_iff_missing_witness:
  "getValueOrLog (Str ''8f2a'') ''rayId'' ''event'' = Str ''8f2a''
   \<and> getValueOrLog (Str []) ''rayId'' ''event'' = Null
   \<and> getValueOrLog Undefined ''rayId'' ''event'' = Null
   \<and> getValueOrLog (Num (Fin 0)) ''rayId'' ''event'' = Num (Fin 0)"
  using getValueOrLog_absent_iff_missing [of "Str ''8f2a''" "''rayId''" "''event''"]
        getValueOrLog_absent_iff_missing [of "Str []" "''rayId''" "''event''"]
        getValueOrLog_absent_iff_missing [of Undefined "''rayId''" "''event''"]
  by simp

lemmas ev_defs = event_request_def event_response_def request_cf_def request_headers_def
  response_headers_def optp_def nullish_def or_js_def

lemmas sample_defs = sample_platform_def sample_env_def sample_cf_def fetch_event_def
  port_event_def equator_event_def mixed_event_def console_event_def

lemmas number_defs = number_toString_def show_int_def show_nat.simps digit_char_def

subsection \<open>Header folding\<close>

text \<open>
  The reducer of lines 58-61 and 66-69 writes each entry with \<^verbatim>\<open>acc[key] = value\<close> into an
  object literal. Every entry whose folded key is not \<^verbatim>\<open>__proto__\<close> arrives in the folded
  mapping, under the lower-cased key with underscores for hyphens, with its value, the
  last entry winning (\<open>foldHeaders_entries\<close>). An entry whose folded key is
  \<^verbatim>\<open>__proto__\<close> is written through the accessor the accumulator inherits: a string value
  leaves no trace (\<open>foldHeaders_proto_dropped\<close>), and only after a \<^verbatim>\<open>null\<close> value has
  removed the prototype does a later write create the property
  (\<open>foldHeaders_null_prototype\<close>).
\<close>

lemma assign_set: "set (fst (assign k v acc)) \<subseteq> insert (k, v) (set (fst acc))"
proof -
  have "set (AList.update k v al) \<subseteq> insert (k, v) (set al)" for al :: "(string \<times> jsval) list"
    by (induction al) auto
  then show ?thesis by (auto simp: assign_def)
qed

lemma assign_distinct:
  "distinct (map fst (fst acc)) \<Longrightarrow> distinct (map fst (fst (assign k v acc)))"
  by (simp add: assign_def distinct_update)

lemma assign_map_of:
  "k' \<noteq> ''__proto__'' \<Longrightarrow>
     map_of (fst (assign k v acc)) k' = (if k' = k then Some v else map_of (fst acc) k')"
  by (auto simp: assign_def update_conv')

lemma foldl_assign_set:
  "(k', v') \<in> set (fst (foldl (\<lambda>acc kv. assign (g (fst kv)) (snd kv) acc) acc xs)) \<Longrightarrow>
     (k', v') \<in> set (fst acc) \<or> (\<exists>kv \<in> set xs. k' = g (fst kv) \<and> v' = snd kv)"
proof (induction xs arbitrary: acc)
  case Nil
  then show ?case by simp
next
  case (Cons x xs)
  from Cons.IH [OF Cons.prems [simplified]]
  show ?case using assign_set [of "g (fst x)" "snd x" acc] by auto
qed

lemma foldl_assign_distinct:
  "distinct (map fst (fst acc)) \<Longrightarrow>
     distinct (map fst (fst (foldl (\<lambda>acc kv. assign (g (fst kv)) (snd kv) acc) acc xs)))"
  by (induction xs arbitrary: acc) (simp_all add: assign_distinct)

lemma foldl_assign_map_of:
  "k' \<noteq> ''__proto__'' \<Longrightarrow>
   map_of (fst (foldl (\<lambda>acc kv. assign (g (fst kv)) (snd kv) acc) acc xs)) k' =
     (case map_of (rev (map (\<lambda>kv. (g (fst kv), snd kv)) xs)) k' of
        Some v \<Rightarrow> Some v
      | None \<Rightarrow> map_of (fst acc) k')"
proof (induction xs arbitrary: acc)
  case Nil
  then show ?case by simp
next
  case (Cons x xs)
  show ?case
    by (simp add: Cons.IH [OF Cons.prems] assign_map_of [OF Cons.prems] map_add_def
        split: option.splits)
qed

lemma foldl_assign_proto_kept:
  "\<forall>kv \<in> set xs. g (fst kv) = ''__proto__'' \<longrightarrow> snd kv \<noteq> Null \<and> \<not> is_object (snd kv) \<Longrightarrow>
   snd acc = ObjectPrototype \<Longrightarrow> map_of (fst acc) ''__proto__'' = None \<Longrightarrow>
     snd (foldl (\<lambda>acc kv. assign (g (fst kv)) (snd kv) acc) acc xs) = ObjectPrototype
     \<and> map_of (fst (foldl (\<lambda>acc kv. assign (g (fst kv)) (snd kv) acc) acc xs)) ''__proto__'' = None"
proof (induction xs arbitrary: acc)
  case Nil
  then show ?case by simp
next
  case (Cons x xs)
  have step: "snd (assign (g (fst x)) (snd x) acc) = ObjectPrototype
      \<and> map_of (fst (assign (g (fst x)) (snd x) acc)) ''__proto__'' = None"
    using Cons.prems by (auto simp: assign_def update_conv')
  from Cons.prems(1) have rest:
    "\<forall>kv \<in> set xs. g (fst kv) = ''__proto__'' \<longrightarrow> snd kv \<noteq> Null \<and> \<not> is_object (snd kv)"
    by simp
  from Cons.IH [OF rest] step show ?case by simp
qed

lemma upper_code: "c \<in> set ''ABCDEFGHIJKLMNOPQRSTUVWXYZ'' \<Longrightarrow> (of_char c :: nat) \<le> 90"
  by auto

lemma lower_char_not_upper: "lower_char c \<notin> set ''ABCDEFGHIJKLMNOPQRSTUVWXYZ''"
proof (cases "map_of (zip ''ABCDEFGHIJKLMNOPQRSTUVWXYZ'' ''abcdefghijklmnopqrstuvwxyz'') c")
  case (Some d)
  then show ?thesis by (auto simp: lower_char_def split: if_splits)
next
  case None
  then have notupper: "c \<notin> set ''ABCDEFGHIJKLMNOPQRSTUVWXYZ''"
    by (auto split: if_splits)
  show ?thesis
  proof (cases "(192::nat) \<le> of_char c \<and> of_char c \<le> (222::nat) \<and> of_char c \<noteq> (215::nat)")
    case True
    have "(of_char (char_of (of_char c + (32::nat))) :: nat) = of_char c + 32"
      using True by simp
    then have "\<not> (of_char (char_of (of_char c + (32::nat))) :: nat) \<le> 90"
      using True by simp
    then have up: "char_of (of_char c + (32::nat)) \<notin> set ''ABCDEFGHIJKLMNOPQRSTUVWXYZ''"
      using upper_code by blast
    have lc: "lower_char c = char_of (of_char c + (32::nat))"
      unfolding lower_char_def None by (simp only: option.case if_P [OF True])
    show ?thesis unfolding lc by (rule up)
  next
    case False
    have lc: "lower_char c = c"
      unfolding lower_char_def None by (simp only: option.case if_not_P [OF False])
    show ?thesis unfolding lc by (rule notupper)
  qed
qed

lemma foldKey_no_hyphen: "CHR ''-'' \<notin> set (foldKey k)"
  by (auto simp: foldKey_def replace_all_def)

lemma foldKey_no_upper: "c \<in> set (foldKey k) \<Longrightarrow> c \<notin> set ''ABCDEFGHIJKLMNOPQRSTUVWXYZ''"
  using lower_char_not_upper
  by (auto simp: foldKey_def replace_all_def toLowerCase_def split: if_splits)

lemma foldKey_example: "foldKey ''X-Forwarded-For'' = ''x_forwarded_for''"
  by code_simp

lemma foldHeaders_entries:
  "(\<forall>kv' \<in> set (foldHeaders h).
       \<exists>kv \<in> set (entries h). fst kv' = foldKey (fst kv) \<and> snd kv' = snd kv)
   \<and> (\<forall>kv' \<in> set (foldHeaders h).
         CHR ''-'' \<notin> set (fst kv')
         \<and> (\<forall>c \<in> set (fst kv'). c \<notin> set ''ABCDEFGHIJKLMNOPQRSTUVWXYZ''))
   \<and> distinct (map fst (foldHeaders h))
   \<and> (\<forall>k'. k' \<noteq> ''__proto__'' \<longrightarrow>
         map_of (foldHeaders h) k' =
         map_of (rev (map (\<lambda>kv. (foldKey (fst kv), snd kv)) (entries h))) k')
   \<and> foldKey k = map (\<lambda>c. if c = CHR ''-'' then CHR ''_'' else c) (toLowerCase k)
   \<and> foldHeaders (Obj [(''X-Forwarded-For'', Str ''a'')]) = [(''x_forwarded_for'', Str ''a'')]"
proof -
  have src: "\<exists>kv \<in> set (entries h). fst kv' = foldKey (fst kv) \<and> snd kv' = snd kv"
    if "kv' \<in> set (foldHeaders h)" for kv'
    using foldl_assign_set [of "fst kv'" "snd kv'" foldKey "([], ObjectPrototype)" "entries h"] that
    by (simp add: foldHeaders_def)
  have shape: "CHR ''-'' \<notin> set (fst kv')
      \<and> (\<forall>c \<in> set (fst kv'). c \<notin> set ''ABCDEFGHIJKLMNOPQRSTUVWXYZ'')"
    if "kv' \<in> set (foldHeaders h)" for kv'
  proof -
    from src [OF that] obtain kv where kv: "fst kv' = foldKey (fst kv)" by auto
    show ?thesis unfolding kv using foldKey_no_hyphen foldKey_no_upper by blast
  qed
  have dist: "distinct (map fst (foldHeaders h))"
    unfolding foldHeaders_def by (rule foldl_assign_distinct) simp
  have look: "map_of (foldHeaders h) k' =
      map_of (rev (map (\<lambda>kv. (foldKey (fst kv), snd kv)) (entries h))) k'"
    if "k' \<noteq> ''__proto__''" for k'
    by (simp add: foldHeaders_def foldl_assign_map_of [OF that] split: option.splits)
  have key: "foldKey k = map (\<lambda>c. if c = CHR ''-'' then CHR ''_'' else c) (toLowerCase k)"
    by (simp add: foldKey_def replace_all_def)
  have ex: "foldHeaders (Obj [(''X-Forwarded-For'', Str ''a'')]) = [(''x_forwarded_for'', Str ''a'')]"
    by code_simp
  from src shape dist look key ex show ?thesis by blast
qed

lemma foldHeaders_proto_dropped:
  assumes "\<forall>kv \<in> set (entries h).
             foldKey (fst kv) = ''__proto__'' \<longrightarrow> snd kv \<noteq> Null \<and> \<not> is_object (snd kv)"
  shows "map_of (foldHeaders h) ''__proto__'' = None"
  using foldl_assign_proto_kept [of "entries h" foldKey "([], ObjectPrototype)", OF assms]
  by (simp add: foldHeaders_def)

lemma foldHeaders_null_prototype:
  "foldHeaders (Obj [(''__proto__'', Null), (''__PROTO__'', Str ''x'')]) = [(''__proto__'', Str ''x'')]"
  by code_simp

text \<open>
  C5 does not hold of the program. The claim: for every header mapping, every entry is
  folded to the lower-cased key with underscores for hyphens, its value passing through
  unchanged. For the request headers \<^verbatim>\<open>{'__proto__': 'a', 'X-A': 'b'}\<close> the assignment
  \<^verbatim>\<open>acc['__proto__'] = 'a'\<close> of line 59 goes to the accessor inherited from
  \<^verbatim>\<open>Object.prototype\<close>, which ignores a string: the folded mapping is \<^verbatim>\<open>{x_a: 'b'}\<close>, the
  header \<^verbatim>\<open>__proto__\<close> and its value are lost, in the folding alone and in the record the
  converter returns. The header \<^verbatim>\<open>--PROTO--\<close>, which folds to the same key, is lost too.
\<close>

theorem proto_header_dropped:
  "foldHeaders (Obj [(''__proto__'', Str ''a''), (''X-A'', Str ''b'')]) = [(''x_a'', Str ''b'')]
   \<and> foldHeaders (Obj [(''--PROTO--'', Str ''a'')]) = []
   \<and> request_headers proto_header_event = Obj [(''__proto__'', Str ''a''), (''X-A'', Str ''b'')]
   \<and> map_option (\<lambda>r. getp (getp r ''request'') ''headers'')
        (tailEvent2fastly sample_platform proto_header_event) = Some (Obj [(''x_a'', Str ''b'')])"
proof -
  have f1: "foldHeaders (Obj [(''__proto__'', Str ''a''), (''X-A'', Str ''b'')]) = [(''x_a'', Str ''b'')]"
    by code_simp
  have f2: "foldHeaders (Obj [(''--PROTO--'', Str ''a'')]) = []"
    by code_simp
  have h: "request_headers proto_header_event = Obj [(''__proto__'', Str ''a''), (''X-A'', Str ''b'')]"
    by (simp add: ev_defs proto_header_event_def)
  have r: "map_option (\<lambda>r. getp (getp r ''request'') ''headers'')
        (tailEvent2fastly sample_platform proto_header_event)
      = Some (Obj (foldHeaders (request_headers proto_header_event)))"
    by (simp add: tailEvent2fastly_def fastly_record_def ev_defs sample_defs proto_header_event_def
        new_URL_def opt_toString_def parseFloat_def number_defs Let_def)
  from f1 f2 h r show ?thesis by simp
qed

subsection \<open>The converter\<close>

lemma ToString_primitive:
  "(case v of Arr xs \<Rightarrow> False | Obj kvs \<Rightarrow> False | _ \<Rightarrow> True) \<Longrightarrow> ToString P v \<noteq> None"
  by (cases v) auto

lemma opt_toString_total: "ToString P v \<noteq> None \<Longrightarrow> \<exists>s. opt_toString P v = Some s"
  by (cases "nullish v") (auto simp: opt_toString_def)

lemma parseFloat_total: "ToString P v \<noteq> None \<Longrightarrow> \<exists>x. parseFloat P v = Some x"
  by (auto simp: parseFloat_def)

lemma fastly_record_sections:
  "\<exists>rq rs hx cl cdn. fastly_record tailEvent u st la lo an =
      Obj [(''request'', Obj rq), (''response'', Obj rs), (''helix'', Obj hx),
           (''client'', Obj cl), (''cdn'', Obj cdn)]"
  by (simp add: fastly_record_def Let_def)

lemma tailEvent2fastly_no_request:
  "\<not> nullish tailEvent \<Longrightarrow> \<not> truthy (event_request tailEvent) \<Longrightarrow>
     tailEvent2fastly P tailEvent = Some Null"
  by (simp add: tailEvent2fastly_def Let_def)

lemma tailEvent2fastly_bad_url:
  "\<not> nullish tailEvent \<Longrightarrow> new_URL P (getp (event_request tailEvent) ''url'') = None \<Longrightarrow>
     tailEvent2fastly P tailEvent = Some Null"
  by (simp add: tailEvent2fastly_def Let_def)

lemma tailEvent2fastly_record:
  "\<not> nullish tailEvent \<Longrightarrow> truthy (event_request tailEvent) \<Longrightarrow>
   new_URL P (getp (event_request tailEvent) ''url'') = Some u \<Longrightarrow>
   opt_toString P (optp (event_response tailEvent) ''status'') = Some st \<Longrightarrow>
   parseFloat P (optp (request_cf tailEvent) ''latitude'') = Some la \<Longrightarrow>
   parseFloat P (optp (request_cf tailEvent) ''longitude'') = Some lo \<Longrightarrow>
   opt_toString P (optp (request_cf tailEvent) ''asn'') = Some an \<Longrightarrow>
     tailEvent2fastly P tailEvent = Some (fastly_record tailEvent u st la lo an)"
  by (simp add: tailEvent2fastly_def Let_def)

lemma tailEvent2fastly_result:
  assumes "tailEvent2fastly P tailEvent = Some r" and "r \<noteq> Null"
  shows "\<exists>u st la lo an.
           new_URL P (getp (event_request tailEvent) ''url'') = Some u
           \<and> opt_toString P (optp (event_response tailEvent) ''status'') = Some st
           \<and> parseFloat P (optp (request_cf tailEvent) ''latitude'') = Some la
           \<and> parseFloat P (optp (request_cf tailEvent) ''longitude'') = Some lo
           \<and> opt_toString P (optp (request_cf tailEvent) ''asn'') = Some an
           \<and> r = fastly_record tailEvent u st la lo an"
  using assms
  by (simp add: tailEvent2fastly_def Let_def split: if_splits option.splits)

text \<open>
  C7. The converter fails, that is returns \<^verbatim>\<open>null\<close> and no record, if and only if the
  request of the event's fetch sub-event is missing (the test \<^verbatim>\<open>!request\<close>) or
  \<^verbatim>\<open>new URL(request.url)\<close> throws; for every other owning event it returns a record with
  the five sections \<^verbatim>\<open>request\<close>, \<^verbatim>\<open>response\<close>, \<^verbatim>\<open>helix\<close>, \<^verbatim>\<open>client\<close> and \<^verbatim>\<open>cdn\<close>.
  An owning event is an object (not undefined or null) whose status, AS number, latitude
  and longitude, where present, are values that have a string form, as all numbers and
  strings do (\<open>ToString_primitive\<close>); the converter throws on anything else.
\<close>

theorem tailEvent2fastly_failure_iff:
  assumes "\<not> nullish tailEvent"
    and "ToString P (optp (event_response tailEvent) ''status'') \<noteq> None"
    and "ToString P (optp (request_cf tailEvent) ''latitude'') \<noteq> None"
    and "ToString P (optp (request_cf tailEvent) ''longitude'') \<noteq> None"
    and "ToString P (optp (request_cf tailEvent) ''asn'') \<noteq> None"
  shows "(tailEvent2fastly P tailEvent = Some Null \<longleftrightarrow>
            \<not> truthy (event_request tailEvent)
            \<or> new_URL P (getp (event_request tailEvent) ''url'') = None)
         \<and> (if \<not> truthy (event_request tailEvent)
                \<or> new_URL P (getp (event_request tailEvent) ''url'') = None
             then tailEvent2fastly P tailEvent = Some Null
             else \<exists>rq rs hx cl cdn. tailEvent2fastly P tailEvent =
                    Some (Obj [(''request'', Obj rq), (''response'', Obj rs), (''helix'', Obj hx),
                               (''client'', Obj cl), (''cdn'', Obj cdn)]))"
proof (cases "\<not> truthy (event_request tailEvent)
                \<or> new_URL P (getp (event_request tailEvent) ''url'') = None")
  case True
  then have "tailEvent2fastly P tailEvent = Some Null"
    using assms(1) tailEvent2fastly_no_request tailEvent2fastly_bad_url by blast
  with True show ?thesis by simp
next
  case False
  then obtain u where u: "new_URL P (getp (event_request tailEvent) ''url'') = Some u"
    and tr: "truthy (event_request tailEvent)" by auto
  from opt_toString_total [OF assms(2)] obtain st where
    c1: "opt_toString P (optp (event_response tailEvent) ''status'') = Some st" ..
  from parseFloat_total [OF assms(3)] obtain la where
    c2: "parseFloat P (optp (request_cf tailEvent) ''latitude'') = Some la" ..
  from parseFloat_total [OF assms(4)] obtain lo where
    c3: "parseFloat P (optp (request_cf tailEvent) ''longitude'') = Some lo" ..
  from opt_toString_total [OF assms(5)] obtain an where
    c4: "opt_toString P (optp (request_cf tailEvent) ''asn'') = Some an" ..
  have eq: "tailEvent2fastly P tailEvent = Some (fastly_record tailEvent u st la lo an)"
    by (rule tailEvent2fastly_record [OF assms(1) tr u c1 c2 c3 c4])
  from fastly_record_sections [of tailEvent u st la lo an]
  obtain rq rs hx cl cdn where sec: "fastly_record tailEvent u st la lo an =
      Obj [(''request'', Obj rq), (''response'', Obj rs), (''helix'', Obj hx),
           (''client'', Obj cl), (''cdn'', Obj cdn)]" by blast
  show ?thesis using False eq sec by simp
qed


theorem tailEvent2fastly_failure_iff_witness:
  "tailEvent2fastly sample_platform (Obj [(''event'', Obj [])]) = Some Null
   \<and> tailEvent2fastly sample_platform
        (Obj [(''event'', Obj [(''request'',
           Obj [(''url'', Str ''not-a-valid-url''), (''headers'', Obj [])])])]) = Some Null
   \<and> (\<exists>rq rs hx cl cdn. tailEvent2fastly sample_platform (fetch_event (Num (Fin 200))) =
         Some (Obj [(''request'', Obj rq), (''response'', Obj rs), (''helix'', Obj hx),
                    (''client'', Obj cl), (''cdn'', Obj cdn)]))"
proof -
  let ?e1 = "Obj [(''event'', Obj [])]"
  let ?e2 = "Obj [(''event'', Obj [(''request'',
           Obj [(''url'', Str ''not-a-valid-url''), (''headers'', Obj [])])])]"
  let ?e3 = "fetch_event (Num (Fin 200))"
  have a1: "\<not> nullish ?e1"
    and a2: "ToString sample_platform (optp (event_response ?e1) ''status'') \<noteq> None"
    and a3: "ToString sample_platform (optp (request_cf ?e1) ''latitude'') \<noteq> None"
    and a4: "ToString sample_platform (optp (request_cf ?e1) ''longitude'') \<noteq> None"
    and a5: "ToString sample_platform (optp (request_cf ?e1) ''asn'') \<noteq> None"
    and a6: "\<not> truthy (event_request ?e1)"
    by (simp_all add: ev_defs)
  have b1: "\<not> nullish ?e2"
    and b2: "ToString sample_platform (optp (event_response ?e2) ''status'') \<noteq> None"
    and b3: "ToString sample_platform (optp (request_cf ?e2) ''latitude'') \<noteq> None"
    and b4: "ToString sample_platform (optp (request_cf ?e2) ''longitude'') \<noteq> None"
    and b5: "ToString sample_platform (optp (request_cf ?e2) ''asn'') \<noteq> None"
    and b6: "new_URL sample_platform (getp (event_request ?e2) ''url'') = None"
    by (simp_all add: ev_defs new_URL_def sample_defs)
  have c1: "\<not> nullish ?e3"
    and c2: "ToString sample_platform (optp (event_response ?e3) ''status'') \<noteq> None"
    and c3: "ToString sample_platform (optp (request_cf ?e3) ''latitude'') \<noteq> None"
    and c4: "ToString sample_platform (optp (request_cf ?e3) ''longitude'') \<noteq> None"
    and c5: "ToString sample_platform (optp (request_cf ?e3) ''asn'') \<noteq> None"
    and c6: "\<not> (\<not> truthy (event_request ?e3)
               \<or> new_URL sample_platform (getp (event_request ?e3) ''url'') = None)"
    by (simp_all add: ev_defs new_URL_def sample_defs)
  have r1: "tailEvent2fastly sample_platform ?e1 = Some Null"
    by (rule iffD2 [OF conjunct1 [OF tailEvent2fastly_failure_iff [OF a1 a2 a3 a4 a5]] disjI1 [OF a6]])
  have r2: "tailEvent2fastly sample_platform ?e2 = Some Null"
    by (rule iffD2 [OF conjunct1 [OF tailEvent2fastly_failure_iff [OF b1 b2 b3 b4 b5]] disjI2 [OF b6]])
  from conjunct2 [OF tailEvent2fastly_failure_iff [OF c1 c2 c3 c4 c5]]
  have r3: "\<exists>rq rs hx cl cdn. tailEvent2fastly sample_platform ?e3 =
         Some (Obj [(''request'', Obj rq), (''response'', Obj rs), (''helix'', Obj hx),
                    (''client'', Obj cl), (''cdn'', Obj cdn)])"
    unfolding if_not_P [OF c6] .
  from r1 r2 r3 show ?thesis by (intro conjI)
qed


lemma fastly_record_request:
  "getp (getp (fastly_record e u st la lo an) ''request'') ''host'' =
      or_js (getp (request_headers e) ''host'') (Str (hostname u))"
  "getp (getp (fastly_record e u st la lo an) ''request'') ''url'' = Str (pathname u)"
  "getp (getp (fastly_record e u st la lo an) ''request'') ''qs'' =
      Str (replace_first (CHR ''?'') [] (search u))"
  by (simp_all add: fastly_record_def Let_def)

lemma fastly_record_geopoint:
  "getp (getp (getp (getp (fastly_record e u st la lo an) ''cdn'') ''originating_ip_geoip'')
      ''location_geopoint'') ''lat'' = or_js (Num la) Undefined"
  "getp (getp (getp (getp (fastly_record e u st la lo an) ''cdn'') ''originating_ip_geoip'')
      ''location_geopoint'') ''lon'' = or_js (Num lo) Undefined"
  by (simp_all add: fastly_record_def Let_def)

lemma fastly_record_status:
  "optp (getp (fastly_record e u st la lo an) ''response'') ''status'' = st"
  by (simp add: fastly_record_def Let_def optp_def nullish_def)

text \<open>
  C4, as amended. For every fetch sub-event that converts, the \<^verbatim>\<open>request\<close> section has:
  \<^verbatim>\<open>host\<close> equal to the \<^verbatim>\<open>host\<close> entry of the request headers when that entry is truthy
  (present and not empty), and otherwise to the \<^verbatim>\<open>hostname\<close> of the parsed URL, which
  carries no port; \<^verbatim>\<open>url\<close> equal to the path of the parsed URL; and \<^verbatim>\<open>qs\<close> equal to the
  query of the parsed URL without its leading question mark (empty when there is no
  query).
\<close>

theorem request_section_host_url_qs:
  assumes "tailEvent2fastly P tailEvent = Some r" and "r \<noteq> Null"
  shows "\<exists>u. new_URL P (getp (event_request tailEvent) ''url'') = Some u
     \<and> getp (getp r ''request'') ''host'' =
          (if truthy (getp (request_headers tailEvent) ''host'')
           then getp (request_headers tailEvent) ''host'' else Str (hostname u))
     \<and> getp (getp r ''request'') ''url'' = Str (pathname u)
     \<and> getp (getp r ''request'') ''qs'' = Str (replace_first (CHR ''?'') [] (search u))
     \<and> (search u = [] \<longrightarrow> getp (getp r ''request'') ''qs'' = Str [])
     \<and> (\<forall>q. search u = CHR ''?'' # q \<longrightarrow> getp (getp r ''request'') ''qs'' = Str q)"
proof -
  from tailEvent2fastly_result [OF assms] obtain u st la lo an where
    u: "new_URL P (getp (event_request tailEvent) ''url'') = Some u"
    and r: "r = fastly_record tailEvent u st la lo an" by blast
  show ?thesis
    using u by (auto simp: r fastly_record_request or_js_def)
qed

theorem request_section_host_url_qs_witness:
  "tailEvent2fastly sample_platform port_event \<noteq> None
   \<and> map_option (\<lambda>r. getp (getp r ''request'') ''host'') (tailEvent2fastly sample_platform port_event)
       = Some (Str ''example.com'')
   \<and> map_option (\<lambda>r. getp (getp r ''request'') ''url'') (tailEvent2fastly sample_platform port_event)
       = Some (Str ''/a/b'')
   \<and> map_option (\<lambda>r. getp (getp r ''request'') ''qs'') (tailEvent2fastly sample_platform port_event)
       = Some (Str ''x=1&y=2'')
   \<and> map_option (\<lambda>r. getp (getp r ''request'') ''host'')
         (tailEvent2fastly sample_platform (fetch_event (Num (Fin 200))))
       = Some (Str ''minivelos.bike'')"
proof -
  obtain r where r: "tailEvent2fastly sample_platform port_event = Some r" and nn: "r \<noteq> Null"
    by (simp add: tailEvent2fastly_def ev_defs sample_defs new_URL_def opt_toString_def
        parseFloat_def number_defs fastly_record_def)
  have url: "new_URL sample_platform (getp (event_request port_event) ''url'') =
      Some \<lparr>hostname = ''example.com'', host = ''example.com:8443'',
            pathname = ''/a/b'', search = ''?x=1&y=2''\<rparr>"
    by (simp add: ev_defs sample_defs new_URL_def)
  have hd: "\<not> truthy (getp (request_headers port_event) ''host'')"
    by (simp add: ev_defs sample_defs)
  from request_section_host_url_qs [OF r nn] url hd
  have p: "getp (getp r ''request'') ''host'' = Str ''example.com''"
    "getp (getp r ''request'') ''url'' = Str ''/a/b''"
    "getp (getp r ''request'') ''qs'' = Str ''x=1&y=2''"
    by auto
  obtain r' where r': "tailEvent2fastly sample_platform (fetch_event (Num (Fin 200))) = Some r'"
    and nn': "r' \<noteq> Null"
    by (simp add: tailEvent2fastly_def ev_defs sample_defs new_URL_def opt_toString_def
        parseFloat_def number_defs fastly_record_def)
  have hd': "getp (request_headers (fetch_event (Num (Fin 200)))) ''host'' = Str ''minivelos.bike''"
    by (simp add: ev_defs sample_defs)
  from request_section_host_url_qs [OF r' nn'] hd'
  have p': "getp (getp r' ''request'') ''host'' = Str ''minivelos.bike''"
    by auto
  show ?thesis by (simp add: r r' p p')
qed

text \<open>
  C4, as stated, fails. The URL \<^verbatim>\<open>https://example.com:8443/a/b?x=1&y=2\<close> has the host
  component \<^verbatim>\<open>example.com:8443\<close>; with no \<^verbatim>\<open>host\<close> header the converter writes
  \<^verbatim>\<open>example.com\<close>, the host name without the port.
\<close>

theorem request_host_drops_port:
  "getp (request_headers port_event) ''host'' = Undefined
   \<and> map_option host (new_URL sample_platform (getp (event_request port_event) ''url''))
       = Some ''example.com:8443''
   \<and> map_option (\<lambda>r. getp (getp r ''request'') ''host'') (tailEvent2fastly sample_platform port_event)
       = Some (Str ''example.com'')
   \<and> map_option (\<lambda>r. getp (getp r ''request'') ''host'') (tailEvent2fastly sample_platform port_event)
       \<noteq> map_option (\<lambda>u. Str (host u))
            (new_URL sample_platform (getp (event_request port_event) ''url''))"
  by (simp add: tailEvent2fastly_def ev_defs sample_defs new_URL_def opt_toString_def
        parseFloat_def number_defs fastly_record_def)

text \<open>
  C3 does not hold of the program. The claim: \<^verbatim>\<open>lat\<close> is the number \<^verbatim>\<open>parseFloat\<close> yields
  whenever it yields a number, and absent only when it yields NaN. For the latitude
  \<^verbatim>\<open>"0"\<close> the parse yields the number zero, and \<^verbatim>\<open>parseFloat(cf?.latitude) || undefined\<close>
  (line 88) makes the field \<^verbatim>\<open>undefined\<close>; the longitude of the same event is kept.
\<close>

theorem equator_latitude_absent:
  "parseFloat sample_platform (optp (request_cf equator_event) ''latitude'') = Some (Fin 0)
   \<and> map_option
        (\<lambda>r. getp (getp (getp (getp r ''cdn'') ''originating_ip_geoip'') ''location_geopoint'') ''lat'')
        (tailEvent2fastly sample_platform equator_event) = Some Undefined
   \<and> map_option
        (\<lambda>r. getp (getp (getp (getp r ''cdn'') ''originating_ip_geoip'') ''location_geopoint'') ''lon'')
        (tailEvent2fastly sample_platform equator_event) = Some (Num (Fin (53 / 4)))"
  by (simp add: tailEvent2fastly_def ev_defs sample_defs new_URL_def opt_toString_def
        parseFloat_def number_defs fastly_record_def)


subsection \<open>Printing an integer and reading it back\<close>

lemma digit_char_cases:
  "d < 10 \<Longrightarrow> d = 0 \<or> d = 1 \<or> d = 2 \<or> d = 3 \<or> d = 4 \<or> d = 5 \<or> d = 6 \<or> d = 7 \<or> d = 8 \<or> d = (9::nat)"
  by arith

lemma digit_of_digit_char: "d < 10 \<Longrightarrow> digit_of (digit_char d) = Some d"
  using digit_char_cases [of d] by (auto simp: digit_of_def digit_char_def)

lemma is_digit_digit_char: "d < 10 \<Longrightarrow> is_digit 10 (digit_char d)"
  by (simp add: is_digit_def digit_of_digit_char)

lemma digit_char_plain:
  "d < 10 \<Longrightarrow> \<not> is_space (digit_char d) \<and> digit_char d \<noteq> CHR ''-'' \<and> digit_char d \<noteq> CHR ''+''
     \<and> digit_char d \<noteq> CHR ''x'' \<and> digit_char d \<noteq> CHR ''X''"
  using digit_char_cases [of d] by (auto simp: digit_char_def is_space_def)

lemma show_nat_digits: "\<forall>c \<in> set (show_nat n). \<exists>d < 10. c = digit_char d"
proof (induction n rule: show_nat.induct)
  case (1 n)
  show ?case
  proof (cases "n < 10")
    case True
    then show ?thesis by (subst show_nat.simps) auto
  next
    case False
    have "\<exists>d<10. digit_char (n mod 10) = digit_char d"
      by (rule exI [of _ "n mod 10"]) simp
    with False 1 show ?thesis by (subst show_nat.simps) auto
  qed
qed

lemma show_nat_nonempty: "show_nat n \<noteq> []"
  by (subst show_nat.simps) simp

lemma digits_value_snoc:
  "digits_value r (ds @ [c]) = digits_value r ds * r + the (digit_of c)"
  by (simp add: digits_value_def)

lemma digits_value_show_nat: "digits_value 10 (show_nat n) = n"
proof (induction n rule: show_nat.induct)
  case (1 n)
  show ?case
  proof (cases "n < 10")
    case True
    then show ?thesis
      by (subst show_nat.simps) (simp add: digits_value_def digit_of_digit_char)
  next
    case False
    have m: "n mod 10 < 10" by simp
    from False 1 have "digits_value 10 (show_nat (n div 10)) = n div 10" by simp
    with False m show ?thesis
      by (subst show_nat.simps) (simp add: digits_value_snoc digit_of_digit_char)
  qed
qed

lemma takeWhile_show_nat: "takeWhile (is_digit 10) (show_nat n) = show_nat n"
  using show_nat_digits [of n] by (auto simp: takeWhile_eq_all_conv is_digit_digit_char)

lemma show_nat_head:
  "\<exists>d < 10. \<exists>rest. show_nat n = digit_char d # rest \<and> (\<forall>c \<in> set rest. \<exists>d' < 10. c = digit_char d')"
proof -
  from show_nat_nonempty [of n] obtain c rest where eq: "show_nat n = c # rest"
    by (cases "show_nat n") auto
  with show_nat_digits [of n] show ?thesis by auto
qed

lemma parseInt_show_nat: "parseInt (show_nat n) = Fin (of_nat n)"
proof -
  from show_nat_head [of n] obtain d rest where d: "d < 10"
    and eq: "show_nat n = digit_char d # rest"
    and rest: "\<forall>c \<in> set rest. \<exists>d' < 10. c = digit_char d'" by blast
  have nothex: "take 2 (show_nat n) \<noteq> ''0x'' \<and> take 2 (show_nat n) \<noteq> ''0X''"
  proof (cases rest)
    case Nil
    then show ?thesis by (simp add: eq)
  next
    case (Cons c cs)
    with rest obtain d' where "d' < 10" "c = digit_char d'" by auto
    then show ?thesis using digit_char_plain [of d'] by (simp add: eq Cons)
  qed
  have dw: "dropWhile is_space (show_nat n) = show_nat n"
    using digit_char_plain [OF d] by (simp add: eq)
  have t1: "take 1 (show_nat n) \<noteq> ''-'' \<and> take 1 (show_nat n) \<noteq> ''+''"
    using digit_char_plain [OF d] by (simp add: eq)
  show ?thesis
    using nothex t1 show_nat_nonempty [of n]
    by (simp add: parseInt_def Let_def dw takeWhile_show_nat digits_value_show_nat)
qed

lemma parseInt_show_int: "parseInt (show_int i) = Fin (of_int i)"
proof (cases "i < 0")
  case False
  then show ?thesis by (simp add: show_int_def parseInt_show_nat)
next
  case True
  define m where "m = nat (- i)"
  have m: "m \<noteq> 0" "of_nat m = - (of_int i :: rat)" using True
    by (simp_all add: m_def)
  from show_nat_head [of m] obtain d rest where d: "d < 10"
    and eq: "show_nat m = digit_char d # rest"
    and rest: "\<forall>c \<in> set rest. \<exists>d' < 10. c = digit_char d'" by blast
  have nothex: "take 2 (show_nat m) \<noteq> ''0x'' \<and> take 2 (show_nat m) \<noteq> ''0X''"
  proof (cases rest)
    case Nil
    then show ?thesis by (simp add: eq)
  next
    case (Cons c cs)
    with rest obtain d' where "d' < 10" "c = digit_char d'" by auto
    then show ?thesis using digit_char_plain [of d'] by (simp add: eq Cons)
  qed
  have sp: "\<not> is_space (CHR ''-'')" by (simp add: is_space_def)
  have si: "show_int i = CHR ''-'' # show_nat m" using True by (simp add: show_int_def m_def)
  show ?thesis
    using nothex show_nat_nonempty [of m] m sp
    by (simp add: si parseInt_def Let_def takeWhile_show_nat digits_value_show_nat)
qed

lemma number_toString_int:
  "\<bar>i\<bar> < 10 ^ 21 \<Longrightarrow> number_toString P (Fin (of_int i)) = show_int i"
proof -
  assume a: "\<bar>i\<bar> < 10 ^ 21"
  have "\<bar>(of_int i :: rat)\<bar> < 10 ^ 21"
  proof -
    have "(of_int \<bar>i\<bar> :: rat) < of_int (10 ^ 21)" using a by (simp only: of_int_less_iff)
    then show ?thesis by simp
  qed
  then show ?thesis by (simp add: number_toString_def)
qed

lemma show_int_nonempty: "show_int i \<noteq> []"
  by (simp add: show_int_def show_nat_nonempty)


subsection \<open>The normalizer\<close>

lemma base_log_keys:
  "map fst (base_log P logData event env type rayId) =
     [''timestamp'', ''applicationName'', ''subsystemName'', ''computerName'', ''severity'',
      ''text'', ''category'', ''className'', ''threadId'']"
  by (simp add: base_log_def Let_def)

lemma createCoralogixLog_fetch:
  assumes "createCoralogixLog P logData event env (Str ''fetch'') = Some entry"
  shows "\<exists>rayId fastlyLog.
           extractRayId event logData = Some rayId
         \<and> tailEvent2fastly P event = Some fastlyLog
         \<and> (if \<not> truthy fastlyLog
             then entry = Obj (AList.update ''text'' (Str ''Failed to convert fetch event'')
                               (base_log P logData event env (Str ''fetch'') rayId))
             else if truthy (optp (getp fastlyLog ''response'') ''status'')
             then \<exists>s. ToString P (optp (getp fastlyLog ''response'') ''status'') = Some s
                    \<and> entry = Obj (AList.update ''severity'' (status_severity (parseInt s))
                             (AList.update ''methodName'' (Str ''fetch'')
                             (AList.update ''text'' (JSON_stringify P fastlyLog)
                               (base_log P logData event env (Str ''fetch'') rayId))))
             else entry = Obj (AList.update ''methodName'' (Str ''fetch'')
                             (AList.update ''text'' (JSON_stringify P fastlyLog)
                               (base_log P logData event env (Str ''fetch'') rayId))))"
  using assms
  by (auto simp: createCoralogixLog_def Let_def split: if_splits option.splits)

lemma createCoralogixLog_console:
  assumes "createCoralogixLog P logData event env (Str ''console'') = Some entry"
  shows "\<exists>rayId level_key text.
           extractRayId event logData = Some rayId
         \<and> ToString P (getp logData ''level'') = Some level_key
         \<and> formatConsoleMessage P (getp logData ''message'') = Some text
         \<and> entry = Obj (AList.update ''methodName'' (getp logData ''level'')
                      (AList.update ''text'' text
                      (AList.update ''severity''
                         (or_js (literal_get SEVERITY_MAP level_key) (Num (Fin 3)))
                         (base_log P logData event env (Str ''console'') rayId))))"
  using assms
  by (auto simp: createCoralogixLog_def Let_def split: if_splits option.splits)

lemma createCoralogixLog_exception:
  assumes "createCoralogixLog P logData event env (Str ''exception'') = Some entry"
  shows "\<exists>rayId.
           extractRayId event logData = Some rayId
         \<and> entry = Obj (AList.update ''methodName'' (Str ''exception'')
                    (AList.update ''className'' (getp logData ''name'')
                    (AList.update ''text''
                       (JSON_stringify P (Obj
                          [(''name'', getp logData ''name''),
                           (''message'', getp logData ''message''),
                           (''timestamp'', getp logData ''timestamp'')]))
                    (AList.update ''severity'' (Num (Fin 5))
                       (base_log P logData event env (Str ''exception'') rayId)))))"
  using assms
  by (auto simp: createCoralogixLog_def Let_def split: if_splits option.splits)

lemma status_severity_int:
  "status_severity (Fin (of_int n)) = Num (Fin (if n \<ge> 500 then 5 else if n \<ge> 400 then 4 else 3))"
  by (simp add: status_severity_def)

lemma truthy_record: "truthy (fastly_record e u st la lo an)"
  by (simp add: fastly_record_def Let_def)

text \<open>
  C6. For every fetch-category record whose conversion succeeds, the severity follows the
  response status: 5 when the status is at least 500, 4 when it is at least 400 and below
  500, and 3 otherwise; when the status is absent (undefined or null, or no response at
  all) the severity stays at the default 3. A status is an integer, as every HTTP status
  code is, below \<open>10\<^sup>2\<^sup>1\<close> in magnitude, the range in which the platform prints an
  integer in plain decimal digits. So 404 gives 4, 500 gives 5 and 200 gives 3.
\<close>

theorem fetch_severity_from_status:
  assumes "createCoralogixLog P logData event env (Str ''fetch'') = Some entry"
    and "tailEvent2fastly P event = Some fastlyLog"
    and "fastlyLog \<noteq> Null"
  shows "(\<forall>n. optp (event_response event) ''status'' = Num (Fin (of_int n)) \<and> \<bar>n\<bar> < 10 ^ 21 \<longrightarrow>
            getp entry ''severity'' = Num (Fin (if n \<ge> 500 then 5 else if n \<ge> 400 then 4 else 3)))
       \<and> (nullish (optp (event_response event) ''status'') \<longrightarrow> getp entry ''severity'' = Num (Fin 3))"
proof -
  from tailEvent2fastly_result [OF assms(2,3)] obtain u st la lo an where
    st: "opt_toString P (optp (event_response event) ''status'') = Some st"
    and r: "fastlyLog = fastly_record event u st la lo an" by blast
  have tr: "truthy fastlyLog" by (simp add: r truthy_record)
  have fs: "optp (getp fastlyLog ''response'') ''status'' = st"
    by (simp add: r fastly_record_status)
  from createCoralogixLog_fetch [OF assms(1)] assms(2) tr fs obtain rayId where
    entry: "if truthy st
          then \<exists>s. ToString P st = Some s
                 \<and> entry = Obj (AList.update ''severity'' (status_severity (parseInt s))
                          (AList.update ''methodName'' (Str ''fetch'')
                          (AList.update ''text'' (JSON_stringify P fastlyLog)
                            (base_log P logData event env (Str ''fetch'') rayId))))
          else entry = Obj (AList.update ''methodName'' (Str ''fetch'')
                          (AList.update ''text'' (JSON_stringify P fastlyLog)
                            (base_log P logData event env (Str ''fetch'') rayId)))"
    by auto
  have num: "getp entry ''severity'' = Num (Fin (if n \<ge> 500 then 5 else if n \<ge> 400 then 4 else 3))"
    if a: "optp (event_response event) ''status'' = Num (Fin (of_int n))" and b: "\<bar>n\<bar> < 10 ^ 21" for n
  proof -
    have "st = Str (show_int n)"
      using st by (simp add: a opt_toString_def nullish_def number_toString_int [OF b])
    then show ?thesis
      using entry by (simp add: show_int_nonempty parseInt_show_int status_severity_int update_conv')
  qed
  have absent: "getp entry ''severity'' = Num (Fin 3)"
    if a: "nullish (optp (event_response event) ''status'')"
  proof -
    have "st = Undefined" using st a by (simp add: opt_toString_def)
    then show ?thesis using entry by (simp add: update_conv' base_log_def Let_def)
  qed
  from num absent show ?thesis by blast
qed


lemmas eval_defs = createCoralogixLog_def extractRayId_def getValueOrLog_def base_log_def
  tailEvent2fastly_def fastly_record_def new_URL_def opt_toString_def parseFloat_def
  status_severity_def parseInt_def is_space_def is_digit_def digit_of_def digits_value_def
  literal_get_def SEVERITY_MAP_def object_prototype_names_def formatConsoleMessage_def
  format_item_def update_conv'

theorem fetch_severity_from_status_witness:
  "map_option (\<lambda>entry. getp entry ''severity'')
     (createCoralogixLog sample_platform (getp (fetch_event (Num (Fin 404))) ''event'')
        (fetch_event (Num (Fin 404))) sample_env (Str ''fetch'')) = Some (Num (Fin 4))
   \<and> map_option (\<lambda>entry. getp entry ''severity'')
     (createCoralogixLog sample_platform (getp (fetch_event (Num (Fin 500))) ''event'')
        (fetch_event (Num (Fin 500))) sample_env (Str ''fetch'')) = Some (Num (Fin 5))
   \<and> map_option (\<lambda>entry. getp entry ''severity'')
     (createCoralogixLog sample_platform (getp (fetch_event (Num (Fin 200))) ''event'')
        (fetch_event (Num (Fin 200))) sample_env (Str ''fetch'')) = Some (Num (Fin 3))
   \<and> map_option (\<lambda>entry. getp entry ''severity'')
     (createCoralogixLog sample_platform (getp (fetch_event Undefined) ''event'')
        (fetch_event Undefined) sample_env (Str ''fetch'')) = Some (Num (Fin 3))"
proof -
  have run: "\<exists>entry fastlyLog.
      createCoralogixLog sample_platform (getp (fetch_event s) ''event'') (fetch_event s)
        sample_env (Str ''fetch'') = Some entry
      \<and> tailEvent2fastly sample_platform (fetch_event s) = Some fastlyLog \<and> fastlyLog \<noteq> Null"
    if "s = Num (Fin 404) \<or> s = Num (Fin 500) \<or> s = Num (Fin 200) \<or> s = Undefined" for s
    using that
    by (auto simp: eval_defs ev_defs sample_defs number_defs Let_def)
  have sev: "map_option (\<lambda>entry. getp entry ''severity'')
       (createCoralogixLog sample_platform (getp (fetch_event (Num (Fin (of_int n)))) ''event'')
          (fetch_event (Num (Fin (of_int n)))) sample_env (Str ''fetch''))
     = Some (Num (Fin (if n \<ge> 500 then 5 else if n \<ge> 400 then 4 else 3)))"
    if "n = 404 \<or> n = 500 \<or> n = 200" for n :: int
  proof -
    from that run [of "Num (Fin (of_int n))"] obtain entry fastlyLog where
      e: "createCoralogixLog sample_platform (getp (fetch_event (Num (Fin (of_int n)))) ''event'')
            (fetch_event (Num (Fin (of_int n)))) sample_env (Str ''fetch'') = Some entry"
      and f: "tailEvent2fastly sample_platform (fetch_event (Num (Fin (of_int n)))) = Some fastlyLog"
      and g: "fastlyLog \<noteq> Null" by auto
    have st: "optp (event_response (fetch_event (Num (Fin (of_int n))))) ''status'' = Num (Fin (of_int n))"
      by (simp add: ev_defs fetch_event_def)
    have small: "\<bar>n\<bar> < 10 ^ 21" using that by auto
    from fetch_severity_from_status [OF e f g] st small
    have "getp entry ''severity'' = Num (Fin (if n \<ge> 500 then 5 else if n \<ge> 400 then 4 else 3))"
      by blast
    then show ?thesis by (simp add: e)
  qed
  have absent: "map_option (\<lambda>entry. getp entry ''severity'')
       (createCoralogixLog sample_platform (getp (fetch_event Undefined) ''event'')
          (fetch_event Undefined) sample_env (Str ''fetch'')) = Some (Num (Fin 3))"
  proof -
    from run [of Undefined] obtain entry fastlyLog where
      e: "createCoralogixLog sample_platform (getp (fetch_event Undefined) ''event'')
            (fetch_event Undefined) sample_env (Str ''fetch'') = Some entry"
      and f: "tailEvent2fastly sample_platform (fetch_event Undefined) = Some fastlyLog"
      and g: "fastlyLog \<noteq> Null" by auto
    have st: "nullish (optp (event_response (fetch_event Undefined)) ''status'')"
      by (simp add: ev_defs fetch_event_def)
    from fetch_severity_from_status [OF e f g] st
    have "getp entry ''severity'' = Num (Fin 3)" by blast
    then show ?thesis by (simp add: e)
  qed
  from sev [of 404] sev [of 500] sev [of 200] absent show ?thesis by simp
qed

text \<open>
  C10. A fetch-category record whose conversion fails has no \<^verbatim>\<open>methodName\<close> property at
  all: the failure branch (lines 268-272) changes nothing but \<^verbatim>\<open>text\<close>, which becomes the
  placeholder, so the record has exactly the nine properties of the literal of line 233.
  When the conversion succeeds \<^verbatim>\<open>methodName\<close> is \<^verbatim>\<open>'fetch'\<close>; a console record has the
  property \<^verbatim>\<open>methodName\<close>, set to the level of the item as it is, and an exception record
  has it set to \<^verbatim>\<open>'exception'\<close>.
\<close>

theorem failed_fetch_has_no_methodName:
  assumes "createCoralogixLog P logData event env type = Some entry"
  shows "(type = Str ''fetch'' \<and> tailEvent2fastly P event = Some Null \<longrightarrow>
            (\<exists>rayId. entry = Obj (AList.update ''text'' (Str ''Failed to convert fetch event'')
                                  (base_log P logData event env type rayId)))
            \<and> map_of (entries entry) ''methodName'' = None
            \<and> map fst (entries entry) =
                 [''timestamp'', ''applicationName'', ''subsystemName'', ''computerName'',
                  ''severity'', ''text'', ''category'', ''className'', ''threadId'']
            \<and> getp entry ''text'' = Str ''Failed to convert fetch event'')
       \<and> (type = Str ''fetch'' \<and> tailEvent2fastly P event \<noteq> Some Null \<longrightarrow>
            map_of (entries entry) ''methodName'' = Some (Str ''fetch''))
       \<and> (type = Str ''console'' \<longrightarrow>
            map_of (entries entry) ''methodName'' = Some (getp logData ''level''))
       \<and> (type = Str ''exception'' \<longrightarrow>
            map_of (entries entry) ''methodName'' = Some (Str ''exception''))"
proof -
  have failed: "(\<exists>rayId. entry = Obj (AList.update ''text'' (Str ''Failed to convert fetch event'')
                                  (base_log P logData event env type rayId)))
            \<and> map_of (entries entry) ''methodName'' = None
            \<and> map fst (entries entry) =
                 [''timestamp'', ''applicationName'', ''subsystemName'', ''computerName'',
                  ''severity'', ''text'', ''category'', ''className'', ''threadId'']
            \<and> getp entry ''text'' = Str ''Failed to convert fetch event''"
    if t: "type = Str ''fetch''" and f: "tailEvent2fastly P event = Some Null"
  proof -
    from createCoralogixLog_fetch [OF assms [unfolded t]] f obtain rayId where
      e: "entry = Obj (AList.update ''text'' (Str ''Failed to convert fetch event'')
                        (base_log P logData event env (Str ''fetch'') rayId))"
      by auto
    have k: "map fst (entries entry) =
                 [''timestamp'', ''applicationName'', ''subsystemName'', ''computerName'',
                  ''severity'', ''text'', ''category'', ''className'', ''threadId'']"
      by (simp add: e update_keys base_log_keys)
    have m: "map_of (entries entry) ''methodName'' = None"
      by (simp add: e update_conv' base_log_def Let_def)
    have x: "getp entry ''text'' = Str ''Failed to convert fetch event''"
      by (simp add: e update_conv')
    from e k m x show ?thesis unfolding t by blast
  qed
  have converted: "map_of (entries entry) ''methodName'' = Some (Str ''fetch'')"
    if t: "type = Str ''fetch''" and f: "tailEvent2fastly P event \<noteq> Some Null"
  proof -
    from createCoralogixLog_fetch [OF assms [unfolded t]] obtain rayId fastlyLog where
      c: "tailEvent2fastly P event = Some fastlyLog"
      and d: "if \<not> truthy fastlyLog
             then entry = Obj (AList.update ''text'' (Str ''Failed to convert fetch event'')
                               (base_log P logData event env (Str ''fetch'') rayId))
             else if truthy (optp (getp fastlyLog ''response'') ''status'')
             then \<exists>s. ToString P (optp (getp fastlyLog ''response'') ''status'') = Some s
                    \<and> entry = Obj (AList.update ''severity'' (status_severity (parseInt s))
                             (AList.update ''methodName'' (Str ''fetch'')
                             (AList.update ''text'' (JSON_stringify P fastlyLog)
                               (base_log P logData event env (Str ''fetch'') rayId))))
             else entry = Obj (AList.update ''methodName'' (Str ''fetch'')
                             (AList.update ''text'' (JSON_stringify P fastlyLog)
                               (base_log P logData event env (Str ''fetch'') rayId)))"
      by blast
    from c f have nn: "fastlyLog \<noteq> Null" by simp
    from tailEvent2fastly_result [OF c nn] have "truthy fastlyLog"
      by (auto simp: truthy_record)
    with d show ?thesis by (auto simp: update_conv' split: if_splits)
  qed
  have console: "map_of (entries entry) ''methodName'' = Some (getp logData ''level'')"
    if t: "type = Str ''console''"
    using createCoralogixLog_console [OF assms [unfolded t]] by (auto simp: update_conv')
  have exception: "map_of (entries entry) ''methodName'' = Some (Str ''exception'')"
    if t: "type = Str ''exception''"
    using createCoralogixLog_exception [OF assms [unfolded t]] by (auto simp: update_conv')
  from failed converted console exception show ?thesis by blast
qed

lemmas json_defs = JSON_stringify_def json_quote_def json_quote_char_def hex_char_def

theorem failed_fetch_has_no_methodName_witness:
  "createCoralogixLog sample_platform (getp bad_url_event ''event'') bad_url_event sample_env
      (Str ''fetch'')
     = Some (Obj [(''timestamp'', Num (Fin 1700000000000)),
                  (''applicationName'', Str ''cloudflare-tail''),
                  (''subsystemName'', Str ''my-worker''),
                  (''computerName'', Str ''my-worker''),
                  (''severity'', Num (Fin 3)),
                  (''text'', Str ''Failed to convert fetch event''),
                  (''category'', Str ''fetch''),
                  (''className'', Str ''TailWorker''),
                  (''threadId'', Str ''my-worker'')])
   \<and> tailEvent2fastly sample_platform bad_url_event = Some Null
   \<and> map_option (\<lambda>entry. map_of (entries entry) ''methodName'')
        (createCoralogixLog sample_platform (getp bad_url_event ''event'') bad_url_event sample_env
           (Str ''fetch'')) = Some None
   \<and> map_option (\<lambda>entry. map_of (entries entry) ''methodName'')
        (createCoralogixLog sample_platform (getp (fetch_event (Num (Fin 200))) ''event'')
           (fetch_event (Num (Fin 200))) sample_env (Str ''fetch'')) = Some (Some (Str ''fetch''))"
proof -
  have e: "createCoralogixLog sample_platform (getp bad_url_event ''event'') bad_url_event sample_env
      (Str ''fetch'')
     = Some (Obj [(''timestamp'', Num (Fin 1700000000000)),
                  (''applicationName'', Str ''cloudflare-tail''),
                  (''subsystemName'', Str ''my-worker''),
                  (''computerName'', Str ''my-worker''),
                  (''severity'', Num (Fin 3)),
                  (''text'', Str ''Failed to convert fetch event''),
                  (''category'', Str ''fetch''),
                  (''className'', Str ''TailWorker''),
                  (''threadId'', Str ''my-worker'')])"
    by (simp add: eval_defs ev_defs sample_defs bad_url_event_def Let_def)
  have f: "tailEvent2fastly sample_platform bad_url_event = Some Null"
    by (simp add: eval_defs ev_defs sample_defs bad_url_event_def Let_def)
  from failed_fetch_has_no_methodName [OF e] f
  have m: "map_of (entries (Obj [(''timestamp'', Num (Fin 1700000000000)),
                  (''applicationName'', Str ''cloudflare-tail''),
                  (''subsystemName'', Str ''my-worker''),
                  (''computerName'', Str ''my-worker''),
                  (''severity'', Num (Fin 3)),
                  (''text'', Str ''Failed to convert fetch event''),
                  (''category'', Str ''fetch''),
                  (''className'', Str ''TailWorker''),
                  (''threadId'', Str ''my-worker'')])) ''methodName'' = None"
    by blast
  obtain entry where g: "createCoralogixLog sample_platform
      (getp (fetch_event (Num (Fin 200))) ''event'') (fetch_event (Num (Fin 200))) sample_env
      (Str ''fetch'') = Some entry"
    by (simp add: eval_defs ev_defs sample_defs number_defs Let_def)
  have h: "tailEvent2fastly sample_platform (fetch_event (Num (Fin 200))) \<noteq> Some Null"
    by (simp add: eval_defs ev_defs sample_defs number_defs Let_def)
  from failed_fetch_has_no_methodName [OF g] h
  have n: "map_of (entries entry) ''methodName'' = Some (Str ''fetch'')"
    by blast
  show ?thesis
    unfolding e g f using m n by simp
qed

subsection \<open>The dispatcher\<close>

lemma process_batch_concat:
  "process_batch P env events = Some logs \<Longrightarrow>
     \<exists>per_event. those (map (process_event P env) events) = Some per_event
        \<and> logs = concat per_event"
  by (induction events arbitrary: logs) (auto split: option.splits)

lemma those_map_Some: "those xs = Some ys \<Longrightarrow> xs = map Some ys"
  by (induction xs arbitrary: ys) (auto split: option.splits)

lemmas dispatch_defs = process_event_def fetch_present_def eval_defs ev_defs sample_defs number_defs
  json_defs Let_def

text \<open>
  C1, as amended. For every owning event the dispatcher processes, the records the event
  contributes are the normalizer applied to each console item with the category
  \<^verbatim>\<open>console\<close>, then to each exception item with the category \<^verbatim>\<open>exception\<close>, then, exactly
  when \<^verbatim>\<open>event.event\<close> and \<^verbatim>\<open>event.event.request\<close> are both truthy (a fetch sub-event that
  carries a request), once to \<^verbatim>\<open>event.event\<close> with the category \<^verbatim>\<open>fetch\<close>, in this order
  and nothing else. So the event contributes (number of console items) + (number of
  exception items) + (1 if a fetch sub-event with a request is present, else 0) records.
  The items of \<^verbatim>\<open>event.logs\<close> and \<^verbatim>\<open>event.exceptions\<close> are the elements the loops of lines
  137 and 144 visit, none when the property is missing. The records of a batch are those
  of its events, one event after the other (\<open>process_batch_concat\<close>).
\<close>

theorem process_event_records:
  assumes "process_event P env event = Some logs"
  shows "\<exists>console_logs exception_logs fetch_logs.
      map (\<lambda>log. createCoralogixLog P log event env (Str ''console'')) (items (getp event ''logs''))
        = map Some console_logs
    \<and> map (\<lambda>exception. createCoralogixLog P exception event env (Str ''exception''))
          (items (getp event ''exceptions''))
        = map Some exception_logs
    \<and> (if truthy (getp event ''event'') \<and> truthy (getp (getp event ''event'') ''request'')
       then [createCoralogixLog P (getp event ''event'') event env (Str ''fetch'')]
              = map Some fetch_logs
       else fetch_logs = [])
    \<and> logs = console_logs @ exception_logs @ fetch_logs
    \<and> length logs =
        length (items (getp event ''logs'')) + length (items (getp event ''exceptions''))
        + (if truthy (getp event ''event'') \<and> truthy (getp (getp event ''event'') ''request'')
           then 1 else 0)"
proof -
  from assms obtain cl where cl:
    "(if truthy (getp event ''logs'')
      then (case iterate (getp event ''logs'') of
              None \<Rightarrow> None
            | Some xs \<Rightarrow>
                those (map (\<lambda>log. createCoralogixLog P log event env (Str ''console'')) xs))
      else Some []) = Some cl"
    by (auto simp: process_event_def split: if_splits option.splits)
  from assms cl obtain el where el:
    "(if truthy (getp event ''exceptions'')
      then (case iterate (getp event ''exceptions'') of
              None \<Rightarrow> None
            | Some xs \<Rightarrow>
                those (map (\<lambda>exception. createCoralogixLog P exception event env (Str ''exception'')) xs))
      else Some []) = Some el"
    by (auto simp: process_event_def split: if_splits option.splits)
  have "\<exists>fl. (if fetch_present event
      then [createCoralogixLog P (getp event ''event'') event env (Str ''fetch'')] = map Some fl
      else fl = []) \<and> logs = cl @ el @ fl"
  proof (cases "fetch_present event")
    case True
    with assms cl el obtain f where
      f: "createCoralogixLog P (getp event ''event'') event env (Str ''fetch'') = Some f"
      and l: "logs = cl @ el @ [f]"
      by (auto simp: process_event_def split: if_splits option.splits)
    show ?thesis by (rule exI [of _ "[f]"]) (simp add: True f l)
  next
    case False
    with assms cl el have "logs = cl @ el @ []"
      by (auto simp: process_event_def split: if_splits option.splits)
    with False show ?thesis by (intro exI [of _ "[]"]) simp
  qed
  then obtain fl where fl:
    "(if fetch_present event
      then [createCoralogixLog P (getp event ''event'') event env (Str ''fetch'')] = map Some fl
      else fl = [])"
    and logs: "logs = cl @ el @ fl"
    by blast
  have c: "map (\<lambda>log. createCoralogixLog P log event env (Str ''console'')) (items (getp event ''logs''))
        = map Some cl"
    using cl by (auto simp: items_def dest: those_map_Some split: if_splits option.splits)
  have e: "map (\<lambda>exception. createCoralogixLog P exception event env (Str ''exception''))
          (items (getp event ''exceptions'')) = map Some el"
    using el by (auto simp: items_def dest: those_map_Some split: if_splits option.splits)
  have lc: "length cl = length (items (getp event ''logs''))"
    using arg_cong [OF c, of length] by simp
  have le: "length el = length (items (getp event ''exceptions''))"
    using arg_cong [OF e, of length] by simp
  have lf: "length fl = (if fetch_present event then 1 else 0)"
    using fl arg_cong [of _ "map Some fl" length] by (auto split: if_splits)
  have len: "length logs =
        length (items (getp event ''logs'')) + length (items (getp event ''exceptions''))
        + (if fetch_present event then 1 else 0)"
    by (simp add: logs lc le lf)
  from c e fl logs len show ?thesis
    unfolding fetch_present_def by blast
qed

theorem process_event_records_witness:
  "map_option (map (\<lambda>entry. getp entry ''category''))
       (process_event sample_platform sample_env mixed_event)
     = Some [Str ''console'', Str ''exception'', Str ''fetch'']
   \<and> map_option length (process_event sample_platform sample_env mixed_event) = Some 3
   \<and> length (items (getp mixed_event ''logs'')) = 1
   \<and> length (items (getp mixed_event ''exceptions'')) = 1
   \<and> truthy (getp mixed_event ''event'')
   \<and> truthy (getp (getp mixed_event ''event'') ''request'')"
proof -
  obtain logs where e: "process_event sample_platform sample_env mixed_event = Some logs"
    and cat: "map (\<lambda>entry. getp entry ''category'') logs
                = [Str ''console'', Str ''exception'', Str ''fetch'']"
    by (simp add: dispatch_defs)
  have c: "length (items (getp mixed_event ''logs'')) = 1"
    "length (items (getp mixed_event ''exceptions'')) = 1"
    "truthy (getp mixed_event ''event'')"
    "truthy (getp (getp mixed_event ''event'') ''request'')"
    by (simp_all add: items_def mixed_event_def)
  from process_event_records [OF e] have "length logs =
        length (items (getp mixed_event ''logs'')) + length (items (getp mixed_event ''exceptions''))
        + (if truthy (getp mixed_event ''event'') \<and> truthy (getp (getp mixed_event ''event'') ''request'')
           then 1 else 0)"
    by blast
  with c have "length logs = 3" by simp
  with c cat show ?thesis by (simp add: e)
qed

text \<open>
  C1, as stated, fails. An owning event whose \<^verbatim>\<open>event\<close> property is present and carries a
  response and no request has a sub-event, the one for which the converter reports that
  there is no request data; the test of line 150 asks for the request too, so the
  normalizer is not applied to the sub-event and the event contributes no record, where
  the claim counts one.
\<close>

theorem fetch_sub_event_without_request:
  "getp no_request_event ''event'' = Obj [(''response'', Obj [(''status'', Num (Fin 200))])]
   \<and> truthy (getp no_request_event ''event'')
   \<and> tailEvent2fastly sample_platform no_request_event = Some Null
   \<and> process_event sample_platform sample_env no_request_event = Some []
   \<and> map_option length (process_event sample_platform sample_env no_request_event)
       \<noteq> Some (length (items (getp no_request_event ''logs''))
               + length (items (getp no_request_event ''exceptions'')) + 1)"
  by (simp add: process_event_def fetch_present_def items_def tailEvent2fastly_def ev_defs
      no_request_event_def)

text \<open>
  C2 does not hold of the program. The claim: the thread id is the first present value
  among the \<^verbatim>\<open>cf-ray\<close> header, \<^verbatim>\<open>cf.ray\<close>, the \<^verbatim>\<open>rayId\<close> of the owning event and the
  script name; in particular, with no fetch request, it is the \<^verbatim>\<open>rayId\<close> of the event.
  \<^verbatim>\<open>extractRayId\<close> returns at line 191 when there is no request, before it reads
  \<^verbatim>\<open>event.rayId\<close> at line 213: a console item of an event that has a \<^verbatim>\<open>rayId\<close> and no
  fetch sub-event gets the script name as its thread id.
\<close>

theorem console_thread_ignores_rayId:
  "getp (console_event ''info'') ''rayId'' = Str ''8f2a1b3c4d5e6f70''
   \<and> map_option (map (\<lambda>entry. getp entry ''threadId''))
        (process_event sample_platform sample_env (console_event ''info''))
       = Some [Str ''my-worker'']"
  by (simp add: process_event_def fetch_present_def eval_defs ev_defs sample_defs number_defs Let_def)

text \<open>
  C9 does not hold of the program. The claim: the severity of every record is one of 1, 3,
  4 and 5, an unknown console level giving 3. \<^verbatim>\<open>SEVERITY_MAP[logData.level] || 3\<close>
  (line 248) reads an object literal, which inherits from \<^verbatim>\<open>Object.prototype\<close>: for the
  level \<^verbatim>\<open>constructor\<close> the read yields the built-in function of that name, which is
  truthy, and the severity of the record is that function. A level that is neither in the
  table nor inherited, such as \<^verbatim>\<open>verbose\<close>, gives 3.
\<close>

theorem inherited_level_severity:
  "map_option (map (\<lambda>entry. getp entry ''severity''))
        (process_event sample_platform sample_env (console_event ''constructor''))
       = Some [Native ''constructor'']
   \<and> map_option (map (\<lambda>entry. getp entry ''severity''))
        (process_event sample_platform sample_env (console_event ''verbose''))
       = Some [Num (Fin 3)]"
  by (simp add: process_event_def fetch_present_def eval_defs ev_defs sample_defs number_defs Let_def)

subsection \<open>What the program computes for the thread id, the severity and the geopoint\<close>

text \<open>
  Three general facts beside the evaluations above. When the request and its headers are
  there, the thread id is the first truthy value among the \<^verbatim>\<open>cf-ray\<close> header,
  \<^verbatim>\<open>cf.ray\<close>, \<^verbatim>\<open>event.rayId\<close> and the script name; when either is missing it is the
  script name, whatever \<^verbatim>\<open>event.rayId\<close> holds. The severity is one of 1, 3, 4 and 5
  for every exception and fetch record, and for every console record whose level is not
  the name of a member of \<^verbatim>\<open>Object.prototype\<close>. The fields \<^verbatim>\<open>lat\<close> and \<^verbatim>\<open>lon\<close> hold
  the parsed number unless it is NaN or a zero, and are \<^verbatim>\<open>undefined\<close> then.
\<close>

lemma createCoralogixLog_threadId:
  assumes "createCoralogixLog P logData event env type = Some entry"
  shows "\<exists>rayId. extractRayId event logData = Some rayId
           \<and> getp entry ''threadId'' = or_js rayId (getp event ''scriptName'')"
proof -
  from assms obtain rayId where r: "extractRayId event logData = Some rayId"
    by (auto simp: createCoralogixLog_def split: if_splits option.splits)
  have base: "map_of (base_log P logData event env type rayId) ''threadId'' =
      Some (or_js rayId (getp event ''scriptName''))"
    by (simp add: base_log_def Let_def)
  consider (console) "type = Str ''console''" | (exception) "type = Str ''exception''"
    | (fetch) "type = Str ''fetch''"
    | (other) "type \<noteq> Str ''console''" "type \<noteq> Str ''exception''" "type \<noteq> Str ''fetch''"
    by blast
  then have "getp entry ''threadId'' = or_js rayId (getp event ''scriptName'')"
  proof cases
    case console
    from createCoralogixLog_console [OF assms [unfolded console]] r show ?thesis
      using base by (auto simp: update_conv' console)
  next
    case exception
    from createCoralogixLog_exception [OF assms [unfolded exception]] r show ?thesis
      using base by (auto simp: update_conv' exception)
  next
    case fetch
    from createCoralogixLog_fetch [OF assms [unfolded fetch]] r show ?thesis
      using base by (auto simp: update_conv' fetch split: if_splits)
  next
    case other
    with assms r have "entry = Obj (base_log P logData event env type rayId)"
      by (auto simp: createCoralogixLog_def Let_def split: if_splits option.splits)
    then show ?thesis using base by simp
  qed
  with r show ?thesis by blast
qed

lemma getValueOrLog_truthy:
  "truthy (getValueOrLog v f c) = truthy v"
  "truthy v \<Longrightarrow> getValueOrLog v f c = v"
  by (auto simp: getValueOrLog_def)

lemma threadId_order:
  assumes "createCoralogixLog P logData event env type = Some entry"
    and "truthy (or_js (event_request event) (getp logData ''request''))"
    and "truthy (getp (or_js (event_request event) (getp logData ''request'')) ''headers'')"
  shows "getp entry ''threadId'' =
     (let request = or_js (event_request event) (getp logData ''request'');
          header_ray = getp (getp request ''headers'') ''cf-ray'';
          cf_ray = optp (getp request ''cf'') ''ray'';
          event_ray = getp event ''rayId''
      in if truthy header_ray then header_ray
         else if truthy cf_ray then cf_ray
         else if truthy event_ray then event_ray
         else getp event ''scriptName'')"
proof -
  from createCoralogixLog_threadId [OF assms(1)] obtain rayId where
    r: "extractRayId event logData = Some rayId"
    and t: "getp entry ''threadId'' = or_js rayId (getp event ''scriptName'')" by blast
  from r assms(2,3) show ?thesis
    by (auto simp: t extractRayId_def Let_def getValueOrLog_truthy or_js_def split: if_splits)
qed

lemma threadId_without_headers:
  assumes "createCoralogixLog P logData event env type = Some entry"
    and "\<not> truthy (or_js (event_request event) (getp logData ''request''))
         \<or> \<not> truthy (getp (or_js (event_request event) (getp logData ''request'')) ''headers'')"
  shows "getp entry ''threadId'' = getp event ''scriptName''"
proof -
  from createCoralogixLog_threadId [OF assms(1)] obtain rayId where
    r: "extractRayId event logData = Some rayId"
    and t: "getp entry ''threadId'' = or_js rayId (getp event ''scriptName'')" by blast
  from r assms(2) have "rayId = Undefined"
    by (auto simp: extractRayId_def Let_def split: if_splits)
  then show ?thesis by (simp add: t or_js_def)
qed

lemma status_severity_range:
  "status_severity x \<in> {Num (Fin 3), Num (Fin 4), Num (Fin 5)}"
  by (cases x) (auto simp: status_severity_def)

lemma level_severity_range:
  "k \<notin> set object_prototype_names \<Longrightarrow>
     or_js (literal_get SEVERITY_MAP k) (Num (Fin 3)) \<in> {Num (Fin 1), Num (Fin 3), Num (Fin 4), Num (Fin 5)}"
  by (auto simp: literal_get_def SEVERITY_MAP_def or_js_def split: option.splits if_splits)

lemma severity_range:
  assumes "createCoralogixLog P logData event env type = Some entry"
    and "type = Str ''console'' \<Longrightarrow>
           \<forall>k. ToString P (getp logData ''level'') = Some k \<longrightarrow> k \<notin> set object_prototype_names"
  shows "getp entry ''severity'' \<in> {Num (Fin 1), Num (Fin 3), Num (Fin 4), Num (Fin 5)}"
proof -
  consider (console) "type = Str ''console''" | (exception) "type = Str ''exception''"
    | (fetch) "type = Str ''fetch''"
    | (other) "type \<noteq> Str ''console''" "type \<noteq> Str ''exception''" "type \<noteq> Str ''fetch''"
    by blast
  then show ?thesis
  proof cases
    case console
    from createCoralogixLog_console [OF assms(1) [unfolded console]] obtain rayId level_key msg where
      k: "ToString P (getp logData ''level'') = Some level_key"
      and e: "entry = Obj (AList.update ''methodName'' (getp logData ''level'')
                      (AList.update ''text'' msg
                      (AList.update ''severity''
                         (or_js (literal_get SEVERITY_MAP level_key) (Num (Fin 3)))
                         (base_log P logData event env (Str ''console'') rayId))))" by blast
    from assms(2) [OF console] k have "level_key \<notin> set object_prototype_names" by blast
    from level_severity_range [OF this] show ?thesis by (simp add: e update_conv')
  next
    case exception
    from createCoralogixLog_exception [OF assms(1) [unfolded exception]] show ?thesis
      by (auto simp: update_conv')
  next
    case fetch
    from createCoralogixLog_fetch [OF assms(1) [unfolded fetch]] obtain rayId fastlyLog where
      d: "if \<not> truthy fastlyLog
             then entry = Obj (AList.update ''text'' (Str ''Failed to convert fetch event'')
                               (base_log P logData event env (Str ''fetch'') rayId))
             else if truthy (optp (getp fastlyLog ''response'') ''status'')
             then \<exists>s. ToString P (optp (getp fastlyLog ''response'') ''status'') = Some s
                    \<and> entry = Obj (AList.update ''severity'' (status_severity (parseInt s))
                             (AList.update ''methodName'' (Str ''fetch'')
                             (AList.update ''text'' (JSON_stringify P fastlyLog)
                               (base_log P logData event env (Str ''fetch'') rayId))))
             else entry = Obj (AList.update ''methodName'' (Str ''fetch'')
                             (AList.update ''text'' (JSON_stringify P fastlyLog)
                               (base_log P logData event env (Str ''fetch'') rayId)))"
      by blast
    consider (failed) "entry = Obj (AList.update ''text'' (Str ''Failed to convert fetch event'')
                               (base_log P logData event env (Str ''fetch'') rayId))"
      | (status) s where "entry = Obj (AList.update ''severity'' (status_severity (parseInt s))
                             (AList.update ''methodName'' (Str ''fetch'')
                             (AList.update ''text'' (JSON_stringify P fastlyLog)
                               (base_log P logData event env (Str ''fetch'') rayId))))"
      | (plain) "entry = Obj (AList.update ''methodName'' (Str ''fetch'')
                             (AList.update ''text'' (JSON_stringify P fastlyLog)
                               (base_log P logData event env (Str ''fetch'') rayId)))"
      using d by (auto split: if_splits)
    then show ?thesis
    proof cases
      case failed
      then show ?thesis by (simp add: update_conv' base_log_def Let_def)
    next
      case status
      have "getp entry ''severity'' = status_severity (parseInt s)"
        by (simp add: status update_conv')
      with status_severity_range [of "parseInt s"] show ?thesis by auto
    next
      case plain
      then show ?thesis by (simp add: update_conv' base_log_def Let_def)
    qed
  next
    case other
    with assms(1) have "\<exists>rayId. entry = Obj (base_log P logData event env type rayId)"
      by (auto simp: createCoralogixLog_def Let_def split: if_splits option.splits)
    then show ?thesis by (auto simp: base_log_def Let_def)
  qed
qed

lemma geopoint_lat_lon:
  assumes "tailEvent2fastly P tailEvent = Some r" and "r \<noteq> Null"
  shows "\<exists>la lo. parseFloat P (optp (request_cf tailEvent) ''latitude'') = Some la
           \<and> parseFloat P (optp (request_cf tailEvent) ''longitude'') = Some lo
           \<and> getp (getp (getp (getp r ''cdn'') ''originating_ip_geoip'') ''location_geopoint'') ''lat''
               = (if la = NaN \<or> la = NegZero \<or> la = Fin 0 then Undefined else Num la)
           \<and> getp (getp (getp (getp r ''cdn'') ''originating_ip_geoip'') ''location_geopoint'') ''lon''
               = (if lo = NaN \<or> lo = NegZero \<or> lo = Fin 0 then Undefined else Num lo)"
proof -
  from tailEvent2fastly_result [OF assms] obtain u st la lo an where
    la: "parseFloat P (optp (request_cf tailEvent) ''latitude'') = Some la"
    and lo: "parseFloat P (optp (request_cf tailEvent) ''longitude'') = Some lo"
    and r: "r = fastly_record tailEvent u st la lo an" by blast
  show ?thesis
    using la lo by (auto simp: r fastly_record_geopoint or_js_def)
qed

end
